theory Spec2Isabelle
  imports Main "HOL-Library.Sublist"
begin

section \<open>The Workspace controller of provider-coder\<close>

text \<open>
  A shallow embedding of the controller in \<^verbatim>\<open>workspace_types.go\<close>: the connector
  (\<^verbatim>\<open>Connect\<close>) and the external client (\<^verbatim>\<open>Observe\<close>, \<^verbatim>\<open>Create\<close>, \<^verbatim>\<open>Update\<close>,
  \<^verbatim>\<open>Delete\<close>). The Coder server, the \<^verbatim>\<open>coder\<close> command line tool, the cluster and
  \<^verbatim>\<open>encoding/json\<close> are collaborators outside the repository: their answers are
  parameters of the model, and every call the controller makes to the HTTP client
  or to the command line tool is recorded in the order the code makes it. Writes to standard output (\<^verbatim>\<open>fmt.Printf\<close>) are not modelled.
\<close>

subsection \<open>Go errors and panics\<close>

text \<open>
  An \<^verbatim>\<open>error\<close> value is built by \<^verbatim>\<open>errors.New(msg)\<close>, \<^verbatim>\<open>errors.Wrap(err, msg)\<close>,
  \<^verbatim>\<open>fmt.Errorf(format, err)\<close> with an error operand, or \<^verbatim>\<open>fmt.Errorf(format, s)\<close>
  with a string operand (line 368 passes \<^verbatim>\<open>user.Name\<close> to \<^verbatim>\<open>%w\<close>). The errors
  of the collaborators are values of the same type.
\<close>

datatype goerror =
    ErrorsNew string
  | ErrorsWrap goerror string
  | ErrorfW string goerror
  | ErrorfWString string string

text \<open>A call either returns its result or panics (a run-time error of Go).\<close>

datatype 'a Outcome = Returns 'a | Panics string

definition nil_dereference :: string where
  "nil_dereference = ''runtime error: invalid memory address or nil pointer dereference''"

definition index_out_of_range :: string where
  "index_out_of_range = ''runtime error: index out of range [0] with length 0''"

definition errNotWorkspace :: string where
  "errNotWorkspace = ''managed resource is not a Workspace custom resource''"

definition errTrackPCUsage :: string where
  "errTrackPCUsage = ''cannot track ProviderConfig usage''"

definition errGetPC :: string where
  "errGetPC = ''cannot get ProviderConfig''"

definition errGetCreds :: string where
  "errGetCreds = ''cannot get credentials''"

definition errNewClient :: string where
  "errNewClient = ''cannot create new Service''"

subsection \<open>The managed resources\<close>

text \<open>
  \<^verbatim>\<open>WorkspaceParameters\<close> as declared at lines 27-48, with the two fields the
  controller reads (\<^verbatim>\<open>UserName\<close> at lines 311 and 401, \<^verbatim>\<open>Template\<close> at line 347)
  whose declaration is not part of the file.
\<close>

record WorkspaceParameters =
  ImageID :: string
  OrgID :: string
  ImageTag :: string
  CPUCores :: string
  MemoryGB :: string
  DiskGB :: int
  GPUs :: int
  UseContainerVM :: bool
  ResourcePoolID :: string
  Namespace :: string
  EnableAutoStart :: bool
  ForUserID :: "string option"
  TemplateID :: "string option"
  UserName :: string
  Template :: string

text \<open>
  Of a \<^verbatim>\<open>Workspace\<close> the controller reads the object's name (\<^verbatim>\<open>GetName\<close>), the
  reference to its ProviderConfig (\<^verbatim>\<open>GetProviderConfigReference\<close>, a pointer that
  may be nil) and \<^verbatim>\<open>Spec.ForProvider\<close>.
\<close>

record Workspace =
  Name :: string
  ProviderConfigReference :: "string option"
  ForProvider :: WorkspaceParameters

record TokenParameters =
  ConfigurableField :: string

record Token =
  TokenName :: string
  TokenForProvider :: TokenParameters

text \<open>
  \<^verbatim>\<open>resource.Managed\<close> is an interface; the repository registers two kinds that
  implement it. The type assertion \<^verbatim>\<open>mg.(*v1alpha1.Workspace)\<close> is the case
  distinction on this type.
\<close>

datatype Managed = WorkspaceMg Workspace | TokenMg Token

subsection \<open>The Coder service and the remote calls\<close>

record CoderService =
  token :: string
  coderurl :: string

record external =
  service :: CoderService

datatype Method = GET | POST

record Request =
  req_Method :: Method
  req_HostURL :: string
  req_Header :: "(string \<times> string) list"
  req_Body :: "string option"
  req_Path :: string

text \<open>
  What \<^verbatim>\<open>Get\<close> and \<^verbatim>\<open>Post\<close> of the HTTP client hand back as their first
  result, a \<^verbatim>\<open>*resty.Response\<close>: nil (\<^verbatim>\<open>None\<close>) when the request could not be
  built, as with a host URL or a path that does not parse, and nothing was sent;
  otherwise a response with its status and body, or, when the round trip failed,
  a response without a raw response, whose status reads 0 and whose body reads
  empty. The error that comes as the second result is discarded by the
  controller (\<^verbatim>\<open>resp, _ :=\<close>), which calls \<^verbatim>\<open>StatusCode\<close> and \<^verbatim>\<open>Body\<close> on the
  first without a nil check: on nil the call panics.
\<close>

datatype Response = Response int string | NoResponse goerror

fun StatusCode :: "Response \<Rightarrow> int" where
  "StatusCode (Response st b) = st"
| "StatusCode (NoResponse e) = 0"

fun Body :: "Response \<Rightarrow> string" where
  "Body (Response st b) = b"
| "Body (NoResponse e) = []"

datatype Call = HTTPCall Request | ExecCall string "string list"

text \<open>
  The world outside the controller: the state of the remote service and the calls
  the controller made so far, oldest first. A call to the HTTP client is recorded
  when the controller makes it, whether or not the client could send it.
\<close>

record 's World =
  remote :: 's
  calls :: "Call list"

record User =
  user_ID :: string
  user_Name :: string
  user_Organization_ids :: "string list"

record Template_entry =
  template_ID :: string
  template_Name :: string

text \<open>
  The collaborators: the server's answer to a request in a state, the result of
  running a command (\<^verbatim>\<open>cmd.Output()\<close>: the standard output and an error), and
  \<^verbatim>\<open>json.Unmarshal\<close> into the two anonymous structs of \<^verbatim>\<open>Create\<close>.
\<close>

record 's Env =
  roundtrip :: "'s \<Rightarrow> Request \<Rightarrow> Response option \<times> 's"
  cmd_Output :: "'s \<Rightarrow> string \<Rightarrow> string list \<Rightarrow> (string \<times> goerror option) \<times> 's"
  Unmarshal_user :: "string \<Rightarrow> goerror + User"
  Unmarshal_templates :: "string \<Rightarrow> goerror + Template_entry list"

definition execute ::
  "'s Env \<Rightarrow> Request \<Rightarrow> 's World \<Rightarrow> Response option \<times> 's World" where
  "execute env rq w =
     (case roundtrip env (remote w) rq of
        (None, s') \<Rightarrow> (None, \<lparr>remote = remote w, calls = calls w @ [HTTPCall rq]\<rparr>)
      | (Some resp, s') \<Rightarrow> (Some resp, \<lparr>remote = s', calls = calls w @ [HTTPCall rq]\<rparr>))"

definition run_Output ::
  "'s Env \<Rightarrow> string \<Rightarrow> string list \<Rightarrow> 's World \<Rightarrow> (string \<times> goerror option) \<times> 's World" where
  "run_Output env prog args w =
     (case cmd_Output env (remote w) prog args of
        (res, s') \<Rightarrow> (res, \<lparr>remote = s', calls = calls w @ [ExecCall prog args]\<rparr>))"

text \<open>
  The request the two lookups and \<^verbatim>\<open>Observe\<close> build: host, the two headers, no
  body, and the path given to \<^verbatim>\<open>Get\<close>.
\<close>

definition get_request :: "external \<Rightarrow> string \<Rightarrow> Request" where
  "get_request c path =
     \<lparr>req_Method = GET,
      req_HostURL = coderurl (service c),
      req_Header = [(''Accept'', ''application/json''),
                    (''Coder-Session-Token'', token (service c))],
      req_Body = None,
      req_Path = path\<rparr>"

definition post_request :: "external \<Rightarrow> string \<Rightarrow> string \<Rightarrow> Request" where
  "post_request c body path =
     \<lparr>req_Method = POST,
      req_HostURL = coderurl (service c),
      req_Header = [(''Content-Type'', ''application/json''),
                    (''Accept'', ''application/json''),
                    (''Coder-Session-Token'', token (service c))],
      req_Body = Some body,
      req_Path = path\<rparr>"

subsection \<open>Observe\<close>

record ExternalObservation =
  ResourceExists :: bool
  ResourceUpToDate :: bool
  obs_ConnectionDetails :: "(string \<times> string) list"

text \<open>The request of lines 264-269, for the object's name (\<^verbatim>\<open>mg.GetName()\<close>).\<close>

definition workspace_lookup :: "external \<Rightarrow> Workspace \<Rightarrow> Request" where
  "workspace_lookup c cr =
     (let workspace_name = Name cr in
      get_request c (''/api/v2/users/me/workspace/'' @ workspace_name))"

definition Observe ::
  "'s Env \<Rightarrow> external \<Rightarrow> Managed \<Rightarrow> 's World
     \<Rightarrow> (goerror + ExternalObservation) Outcome \<times> 's World" where
  "Observe env c mg w =
     (case mg of
        TokenMg t \<Rightarrow> (Returns (Inl (ErrorsNew errNotWorkspace)), w)
      | WorkspaceMg cr \<Rightarrow>
          (case execute env (workspace_lookup c cr) w of
             (None, w') \<Rightarrow> (Panics nil_dereference, w')
           | (Some resp, w') \<Rightarrow>
               if StatusCode resp \<noteq> 200
               then (Returns (Inr \<lparr>ResourceExists = False, ResourceUpToDate = False,
                                   obs_ConnectionDetails = []\<rparr>), w')
               else (Returns (Inr \<lparr>ResourceExists = True, ResourceUpToDate = True,
                                   obs_ConnectionDetails = []\<rparr>), w')))"

subsection \<open>Update\<close>

record ExternalUpdate =
  upd_ConnectionDetails :: "(string \<times> string) list"

definition Update ::
  "'s Env \<Rightarrow> external \<Rightarrow> Managed \<Rightarrow> 's World \<Rightarrow> (goerror + ExternalUpdate) \<times> 's World" where
  "Update env c mg w =
     (case mg of
        TokenMg t \<Rightarrow> (Inl (ErrorsNew errNotWorkspace), w)
      | WorkspaceMg cr \<Rightarrow> (Inr \<lparr>upd_ConnectionDetails = []\<rparr>, w))"

subsection \<open>Create\<close>

text \<open>
  \<^verbatim>\<open>strings.ReplaceAll(s, old, new)\<close>: the non-overlapping occurrences of \<^verbatim>\<open>old\<close>
  in \<^verbatim>\<open>s\<close>, from the left, replaced by \<^verbatim>\<open>new\<close>. For an empty \<^verbatim>\<open>old\<close> Go inserts
  \<^verbatim>\<open>new\<close> at the start and after every character; the model does so byte by
  byte. The controller calls it with \<^verbatim>\<open>old = "."\<close> only.
\<close>

function ReplaceAll :: "string \<Rightarrow> string \<Rightarrow> string \<Rightarrow> string" where
  "ReplaceAll s old new =
     (if old = [] then new @ concat (map (\<lambda>ch. ch # new) s)
      else if s = [] then []
      else if prefix old s then new @ ReplaceAll (drop (length old) s) old new
      else hd s # ReplaceAll (tl s) old new)"
  by pat_completeness auto
termination
  by (relation "measure (\<lambda>(s, old, new). length s)") auto

declare ReplaceAll.simps [simp del]

record ExternalCreation =
  cre_ConnectionDetails :: "(string \<times> string) list"

text \<open>
  The loop of lines 345-351: \<^verbatim>\<open>templateID\<close> starts as the empty string and takes
  the id of the first template whose name is the wanted one.
\<close>

fun find_templateID :: "Template_entry list \<Rightarrow> string \<Rightarrow> string" where
  "find_templateID [] wanted = []"
| "find_templateID (t # ts) wanted =
     (if template_Name t = wanted then template_ID t else find_templateID ts wanted)"

text \<open>The body of the creation request, concatenated as at line 363.\<close>

definition create_body :: "string \<Rightarrow> string \<Rightarrow> string" where
  \<open>create_body templateID name =
     ''{"template_id":"'' @ templateID @ ''","name":"'' @ name @ ''"}''\<close>

text \<open>
  The three requests of \<^verbatim>\<open>Create\<close>: the user lookup under the name without its
  dots (lines 311-324), the template lookup in an organization (lines 331-336)
  and the creation of the workspace (lines 357-366).
\<close>

definition user_lookup :: "external \<Rightarrow> Workspace \<Rightarrow> Request" where
  "user_lookup c cr =
     (let username = ReplaceAll (UserName (ForProvider cr)) ''.'' [] in
      get_request c (''/api/v2/users/'' @ username))"

definition templates_lookup :: "external \<Rightarrow> string \<Rightarrow> Request" where
  "templates_lookup c org = get_request c (''/api/v2/organizations/'' @ org @ ''/templates'')"

definition workspace_creation ::
  "external \<Rightarrow> string \<Rightarrow> User \<Rightarrow> string \<Rightarrow> Workspace \<Rightarrow> Request" where
  "workspace_creation c org user templateID cr =
     post_request c (create_body templateID (Name cr))
       (''/api/v2/organizations/'' @ org @ ''/members/'' @ user_ID user @ ''/workspaces'')"

text \<open>
  \<^verbatim>\<open>user.Organization_ids[0]\<close> is evaluated as part of the argument of \<^verbatim>\<open>Get\<close> at
  line 336, so on an empty list the index panics after the user lookup and before
  the template lookup is made. A nil response panics where it is first used:
  \<^verbatim>\<open>resp_user.Body()\<close> at line 326, \<^verbatim>\<open>resp_temp.Body()\<close> at line 341 and
  \<^verbatim>\<open>resp.StatusCode()\<close> at line 367.
\<close>

definition Create ::
  "'s Env \<Rightarrow> external \<Rightarrow> Managed \<Rightarrow> 's World
     \<Rightarrow> (goerror + ExternalCreation) Outcome \<times> 's World" where
  "Create env c mg w =
     (case mg of
        TokenMg t \<Rightarrow> (Returns (Inl (ErrorsNew errNotWorkspace)), w)
      | WorkspaceMg cr \<Rightarrow>
          (case execute env (user_lookup c cr) w of
             (None, w1) \<Rightarrow> (Panics nil_dereference, w1)
           | (Some resp_user, w1) \<Rightarrow>
               (case Unmarshal_user env (Body resp_user) of
                  Inl err \<Rightarrow>
                    (Returns (Inl (ErrorfW ''failed to decode user response: %w'' err)), w1)
                | Inr user \<Rightarrow>
                    (case user_Organization_ids user of
                       [] \<Rightarrow> (Panics index_out_of_range, w1)
                     | org0 # orgs \<Rightarrow>
                         (case execute env (templates_lookup c org0) w1 of
                            (None, w2) \<Rightarrow> (Panics nil_dereference, w2)
                          | (Some resp_temp, w2) \<Rightarrow>
                              (case Unmarshal_templates env (Body resp_temp) of
                                 Inl err \<Rightarrow>
                                   (Returns (Inl (ErrorfW
                                      ''failed to decode templates response: %w'' err)), w2)
                               | Inr templates \<Rightarrow>
                                   (let templateID =
                                          find_templateID templates (Template (ForProvider cr)) in
                                    if templateID = []
                                    then (Returns (Inl (ErrorsNew ''template not found'')), w2)
                                    else
                                      (case execute env
                                              (workspace_creation c org0 user templateID cr) w2 of
                                         (None, w3) \<Rightarrow> (Panics nil_dereference, w3)
                                       | (Some resp, w3) \<Rightarrow>
                                           if StatusCode resp \<noteq> 201
                                           then (Returns (Inl (ErrorfWString
                                                   ''could not create workspace: %w''
                                                   (user_Name user))), w3)
                                           else (Returns (Inr \<lparr>cre_ConnectionDetails = []\<rparr>),
                                                 w3)))))))))"

subsection \<open>Delete\<close>

text \<open>
  \<^verbatim>\<open>Delete\<close> runs the \<^verbatim>\<open>coder\<close> command line tool and returns \<^verbatim>\<open>nil\<close> after it,
  whatever \<^verbatim>\<open>cmd.Output()\<close> returned (lines 404-412). The result is the returned
  error, \<^verbatim>\<open>None\<close> for \<^verbatim>\<open>nil\<close>.
\<close>

definition delete_args :: "external \<Rightarrow> Workspace \<Rightarrow> string list" where
  "delete_args c cr =
     (let username = ReplaceAll (UserName (ForProvider cr)) ''.'' [] in
      [''delete'', username @ ''/'' @ Name cr, ''--yes'',
       ''--url'', coderurl (service c), ''--token'', token (service c)])"

definition Delete ::
  "'s Env \<Rightarrow> external \<Rightarrow> Managed \<Rightarrow> 's World \<Rightarrow> goerror option \<times> 's World" where
  "Delete env c mg w =
     (case mg of
        TokenMg t \<Rightarrow> (Some (ErrorsNew errNotWorkspace), w)
      | WorkspaceMg cr \<Rightarrow>
          (case run_Output env ''/usr/local/bin/coder'' (delete_args c cr) w of
             ((out, err), w') \<Rightarrow> (None, w')))"

subsection \<open>Connect\<close>

record ProviderCredentials =
  Source :: string
  CommonCredentialSelectors :: string

record ProviderConfig =
  Credentials :: ProviderCredentials
  CoderUrl :: string

text \<open>
  The connector holds the cluster client, the usage tracker (\<^verbatim>\<open>usage.Track\<close>: an
  error or nil) and the factory of the service. The cluster's answers are those
  of \<^verbatim>\<open>kube.Get\<close> for a ProviderConfig by name and of
  \<^verbatim>\<open>resource.CommonCredentialExtractor\<close>.
\<close>

record 'k connector =
  kube :: 'k
  usage :: "Managed \<Rightarrow> goerror option"
  newServiceFn :: "string \<Rightarrow> string \<Rightarrow> goerror + CoderService"

record 'k Cluster =
  kube_Get :: "'k \<Rightarrow> string \<Rightarrow> goerror + ProviderConfig"
  CommonCredentialExtractor :: "string \<Rightarrow> 'k \<Rightarrow> string \<Rightarrow> goerror + string"

definition newCoderService :: "string \<Rightarrow> string \<Rightarrow> goerror + CoderService" where
  "newCoderService creds coderURL = Inr \<lparr>token = creds, coderurl = coderURL\<rparr>"

definition Connect ::
  "'k Cluster \<Rightarrow> 'k connector \<Rightarrow> Managed \<Rightarrow> (goerror + external) Outcome" where
  "Connect cl c mg =
     (case mg of
        TokenMg t \<Rightarrow> Returns (Inl (ErrorsNew errNotWorkspace))
      | WorkspaceMg cr \<Rightarrow>
          (case usage c mg of
             Some err \<Rightarrow> Returns (Inl (ErrorsWrap err errTrackPCUsage))
           | None \<Rightarrow>
               (case ProviderConfigReference cr of
                  None \<Rightarrow> Panics nil_dereference
                | Some ref \<Rightarrow>
                    (case kube_Get cl (kube c) ref of
                       Inl err \<Rightarrow> Returns (Inl (ErrorsWrap err errGetPC))
                     | Inr pc \<Rightarrow>
                         (let cd = Credentials pc in
                          case CommonCredentialExtractor cl (Source cd) (kube c)
                                 (CommonCredentialSelectors cd) of
                            Inl err \<Rightarrow> Returns (Inl (ErrorsWrap err errGetCreds))
                          | Inr data \<Rightarrow>
                              (case newServiceFn c data (CoderUrl pc) of
                                 Inl err \<Rightarrow> Returns (Inl (ErrorsWrap err errNewClient))
                               | Inr svc \<Rightarrow> Returns (Inr \<lparr>service = svc\<rparr>)))))))"

subsection \<open>Reading a request body as JSON\<close>

text \<open>
  What a JSON decoder (RFC 8259) reads from a text that is an object whose members
  are strings: the members in order, or nothing when the text is not such an
  object. White space is allowed between the tokens; inside a string a control
  character is refused and a backslash starts an escape. The escape \<^verbatim>\<open>\u\<close> with
  four hexadecimal digits is not covered (it is refused).
\<close>

definition dquote :: char where
  "dquote = CHR 0x22"

definition backslash :: char where
  "backslash = CHR 0x5C"

definition json_space :: "char \<Rightarrow> bool" where
  "json_space ch = (ch = CHR '' '' \<or> ch = CHR 0x09 \<or> ch = CHR 0x0A \<or> ch = CHR 0x0D)"

definition json_control :: "char \<Rightarrow> bool" where
  "json_control ch = (of_char ch < (32::nat))"

definition json_unescape :: "char \<Rightarrow> char option" where
  "json_unescape ch =
     (if ch = dquote then Some dquote
      else if ch = backslash then Some backslash
      else if ch = CHR ''/'' then Some (CHR ''/'')
      else if ch = CHR ''b'' then Some (CHR 0x08)
      else if ch = CHR ''f'' then Some (CHR 0x0C)
      else if ch = CHR ''n'' then Some (CHR 0x0A)
      else if ch = CHR ''r'' then Some (CHR 0x0D)
      else if ch = CHR ''t'' then Some (CHR 0x09)
      else None)"

datatype json_reader =
    RStart
  | RFirst
  | RKey "(string \<times> string) list" string bool
  | RColon "(string \<times> string) list" string
  | RValue "(string \<times> string) list" string
  | RVal "(string \<times> string) list" string string bool
  | RNext "(string \<times> string) list"
  | RMember "(string \<times> string) list"
  | REnd "(string \<times> string) list"

fun json_step :: "json_reader \<Rightarrow> char \<Rightarrow> json_reader option" where
  "json_step RStart ch =
     (if json_space ch then Some RStart
      else if ch = CHR ''{'' then Some RFirst else None)"
| "json_step RFirst ch =
     (if json_space ch then Some RFirst
      else if ch = dquote then Some (RKey [] [] False)
      else if ch = CHR ''}'' then Some (REnd []) else None)"
| "json_step (RKey ms acc True) ch =
     (case json_unescape ch of
        None \<Rightarrow> None
      | Some d \<Rightarrow> Some (RKey ms (acc @ [d]) False))"
| "json_step (RKey ms acc False) ch =
     (if ch = dquote then Some (RColon ms acc)
      else if ch = backslash then Some (RKey ms acc True)
      else if json_control ch then None
      else Some (RKey ms (acc @ [ch]) False))"
| "json_step (RColon ms k) ch =
     (if json_space ch then Some (RColon ms k)
      else if ch = CHR '':'' then Some (RValue ms k) else None)"
| "json_step (RValue ms k) ch =
     (if json_space ch then Some (RValue ms k)
      else if ch = dquote then Some (RVal ms k [] False) else None)"
| "json_step (RVal ms k acc True) ch =
     (case json_unescape ch of
        None \<Rightarrow> None
      | Some d \<Rightarrow> Some (RVal ms k (acc @ [d]) False))"
| "json_step (RVal ms k acc False) ch =
     (if ch = dquote then Some (RNext (ms @ [(k, acc)]))
      else if ch = backslash then Some (RVal ms k acc True)
      else if json_control ch then None
      else Some (RVal ms k (acc @ [ch]) False))"
| "json_step (RNext ms) ch =
     (if json_space ch then Some (RNext ms)
      else if ch = CHR '','' then Some (RMember ms)
      else if ch = CHR ''}'' then Some (REnd ms) else None)"
| "json_step (RMember ms) ch =
     (if json_space ch then Some (RMember ms)
      else if ch = dquote then Some (RKey ms [] False) else None)"
| "json_step (REnd ms) ch =
     (if json_space ch then Some (REnd ms) else None)"

fun json_run :: "json_reader \<Rightarrow> string \<Rightarrow> json_reader option" where
  "json_run st [] = Some st"
| "json_run st (ch # cs) =
     (case json_step st ch of None \<Rightarrow> None | Some st' \<Rightarrow> json_run st' cs)"

definition read_object :: "string \<Rightarrow> (string \<times> string) list option" where
  "read_object s =
     (case json_run RStart s of
        Some (REnd ms) \<Rightarrow> Some ms
      | _ \<Rightarrow> None)"

subsection \<open>Example collaborators\<close>

text \<open>
  A Workspace for the user \<^verbatim>\<open>jane.doe\<close>, the template \<^verbatim>\<open>base-image\<close> and the
  organization \<^verbatim>\<open>org1\<close>, and a client.
\<close>

definition ws_dev :: Workspace where
  "ws_dev =
     \<lparr>Name = ''dev'',
      ProviderConfigReference = Some ''default'',
      ForProvider =
        \<lparr>ImageID = [], OrgID = ''org1'', ImageTag = [], CPUCores = [], MemoryGB = [],
         DiskGB = 0, GPUs = 0, UseContainerVM = False, ResourcePoolID = [],
         Namespace = [], EnableAutoStart = False, ForUserID = None, TemplateID = None,
         UserName = ''jane.doe'', Template = ''base-image''\<rparr>\<rparr>"

definition ex_client :: external where
  "ex_client = \<lparr>service = \<lparr>token = ''s3cr3t'', coderurl = ''https://coder.example.com''\<rparr>\<rparr>"

text \<open>The same Workspace under a name that holds a double quote.\<close>

definition ws_quote :: Workspace where
  \<open>ws_quote = ws_dev\<lparr>Name := ''a"b''\<rparr>\<close>

text \<open>The same Workspace asking for a template that no organization has.\<close>

definition ws_other_template :: Workspace where
  "ws_other_template = ws_dev\<lparr>ForProvider := (ForProvider ws_dev)\<lparr>Template := ''arm-image''\<rparr>\<rparr>"

text \<open>
  A small Coder server. Its state is the list of the names of the workspaces that
  exist. The user \<^verbatim>\<open>janedoe\<close> belongs to \<^verbatim>\<open>org2\<close> first and to \<^verbatim>\<open>org1\<close> second,
  each organization has its own template called \<^verbatim>\<open>base-image\<close>, a workspace is
  created once (201) and a second creation under the same name is refused (409).
\<close>

definition demo_user_body :: string where
  \<open>demo_user_body = ''{"id":"u1","name":"janedoe","organization_ids":["org2","org1"]}''\<close>

definition demo_templates_org1 :: string where
  \<open>demo_templates_org1 = ''[{"id":"tpl-org1","name":"base-image"}]''\<close>

definition demo_templates_org2 :: string where
  \<open>demo_templates_org2 = ''[{"id":"tpl-org2","name":"base-image"}]''\<close>

definition demo_roundtrip ::
  "string list \<Rightarrow> Request \<Rightarrow> Response option \<times> string list" where
  "demo_roundtrip s rq =
     (if req_Method rq = GET \<and> req_Path rq = ''/api/v2/users/janedoe''
      then (Some (Response 200 demo_user_body), s)
      else if req_Method rq = GET \<and> req_Path rq = ''/api/v2/organizations/org1/templates''
      then (Some (Response 200 demo_templates_org1), s)
      else if req_Method rq = GET \<and> req_Path rq = ''/api/v2/organizations/org2/templates''
      then (Some (Response 200 demo_templates_org2), s)
      else if req_Method rq = GET \<and> req_Path rq = ''/api/v2/users/me/workspace/dev''
      then (if ''dev'' \<in> set s then (Some (Response 200 []), s) else (Some (Response 404 []), s))
      else if req_Method rq = POST
              \<and> req_Path rq = ''/api/v2/organizations/org2/members/u1/workspaces''
              \<and> req_Body rq = Some (create_body ''tpl-org2'' ''dev'')
      then (if ''dev'' \<in> set s then (Some (Response 409 []), s)
            else (Some (Response 201 []), ''dev'' # s))
      else (Some (Response 404 []), s))"

definition demo_cmd_Output ::
  "string list \<Rightarrow> string \<Rightarrow> string list \<Rightarrow> (string \<times> goerror option) \<times> string list" where
  "demo_cmd_Output s prog args =
     (if prog = ''/usr/local/bin/coder'' \<and> take 3 args = [''delete'', ''janedoe/dev'', ''--yes'']
         \<and> ''dev'' \<in> set s
      then (([], None), removeAll ''dev'' s)
      else (([], Some (ErrorsNew ''exit status 1'')), s))"

definition demo_Unmarshal_user :: "string \<Rightarrow> goerror + User" where
  "demo_Unmarshal_user b =
     (if b = demo_user_body
      then Inr \<lparr>user_ID = ''u1'', user_Name = ''janedoe'',
                user_Organization_ids = [''org2'', ''org1'']\<rparr>
      else Inl (ErrorsNew ''unexpected end of JSON input''))"

definition demo_Unmarshal_templates :: "string \<Rightarrow> goerror + Template_entry list" where
  "demo_Unmarshal_templates b =
     (if b = demo_templates_org1
      then Inr [\<lparr>template_ID = ''tpl-org1'', template_Name = ''base-image''\<rparr>]
      else if b = demo_templates_org2
      then Inr [\<lparr>template_ID = ''tpl-org2'', template_Name = ''base-image''\<rparr>]
      else Inl (ErrorsNew ''unexpected end of JSON input''))"

definition demo_env :: "string list Env" where
  "demo_env =
     \<lparr>roundtrip = demo_roundtrip, cmd_Output = demo_cmd_Output,
      Unmarshal_user = demo_Unmarshal_user,
      Unmarshal_templates = demo_Unmarshal_templates\<rparr>"

text \<open>
  A server that answers every request with the same response and leaves its state
  alone, and a command line tool that fails every time.
\<close>

definition const_env :: "Response \<Rightarrow> string list Env" where
  "const_env resp =
     \<lparr>roundtrip = (\<lambda>s rq. (Some resp, s)),
      cmd_Output = (\<lambda>s prog args. (([], Some (ErrorsNew ''exit status 1'')), s)),
      Unmarshal_user = demo_Unmarshal_user,
      Unmarshal_templates = demo_Unmarshal_templates\<rparr>"

text \<open>
  A server that knows no user: it answers the user lookup with a message, which
  decodes into a \<^verbatim>\<open>user\<close> struct with every field at its zero value.
\<close>

definition no_user_body :: string where
  \<open>no_user_body = ''{"message":"Resource not found"}''\<close>

definition no_user_env :: "string list Env" where
  "no_user_env =
     \<lparr>roundtrip = (\<lambda>s rq. (Some (Response 404 no_user_body), s)),
      cmd_Output = demo_cmd_Output,
      Unmarshal_user = (\<lambda>b. Inr \<lparr>user_ID = [], user_Name = [], user_Organization_ids = []\<rparr>),
      Unmarshal_templates = demo_Unmarshal_templates\<rparr>"

text \<open>
  A server whose organization \<^verbatim>\<open>org2\<close> has four templates: one of another name
  first, then \<^verbatim>\<open>base-image\<close>, then two called \<^verbatim>\<open>bare-image\<close> of which the first
  has an empty id. It answers every creation request with 201.
\<close>

definition shelf_templates_body :: string where
  \<open>shelf_templates_body =
     ''[{"id":"tpl-gpu","name":"gpu-image"},{"id":"tpl-base","name":"base-image"},{"id":"","name":"bare-image"},{"id":"tpl-bare","name":"bare-image"}]''\<close>

definition shelf_templates :: "Template_entry list" where
  "shelf_templates =
     [\<lparr>template_ID = ''tpl-gpu'', template_Name = ''gpu-image''\<rparr>,
      \<lparr>template_ID = ''tpl-base'', template_Name = ''base-image''\<rparr>,
      \<lparr>template_ID = [], template_Name = ''bare-image''\<rparr>,
      \<lparr>template_ID = ''tpl-bare'', template_Name = ''bare-image''\<rparr>]"

definition shelf_env :: "string list Env" where
  "shelf_env =
     \<lparr>roundtrip = (\<lambda>s rq.
        if req_Method rq = GET \<and> req_Path rq = ''/api/v2/users/janedoe''
        then (Some (Response 200 demo_user_body), s)
        else if req_Method rq = GET \<and> req_Path rq = ''/api/v2/organizations/org2/templates''
        then (Some (Response 200 shelf_templates_body), s)
        else if req_Method rq = POST then (Some (Response 201 []), s)
        else (Some (Response 404 []), s)),
      cmd_Output = demo_cmd_Output,
      Unmarshal_user = demo_Unmarshal_user,
      Unmarshal_templates = (\<lambda>b. if b = shelf_templates_body then Inr shelf_templates
                                  else Inl (ErrorsNew ''unexpected end of JSON input''))\<rparr>"

text \<open>The same Workspace asking for the template \<^verbatim>\<open>bare-image\<close>.\<close>

definition ws_bare :: Workspace where
  "ws_bare = ws_dev\<lparr>ForProvider := (ForProvider ws_dev)\<lparr>Template := ''bare-image''\<rparr>\<rparr>"

text \<open>
  A server that knows the user \<^verbatim>\<open>janedoe\<close> and answers every other request with
  503 and an empty body.
\<close>

definition outage_env :: "string list Env" where
  "outage_env =
     \<lparr>roundtrip = (\<lambda>s rq.
        if req_Method rq = GET \<and> req_Path rq = ''/api/v2/users/janedoe''
        then (Some (Response 200 demo_user_body), s)
        else (Some (Response 503 []), s)),
      cmd_Output = demo_cmd_Output,
      Unmarshal_user = demo_Unmarshal_user,
      Unmarshal_templates = demo_Unmarshal_templates\<rparr>"

text \<open>
  A cluster in which the ProviderConfig \<^verbatim>\<open>default\<close> exists and its secret can be
  read, and two connectors: one whose usage tracking succeeds and one whose
  usage tracking fails.
\<close>

definition demo_pc :: ProviderConfig where
  "demo_pc =
     \<lparr>Credentials = \<lparr>Source = ''Secret'', CommonCredentialSelectors = ''coder-creds''\<rparr>,
      CoderUrl = ''https://coder.example.com''\<rparr>"

definition demo_cluster :: "unit Cluster" where
  "demo_cluster =
     \<lparr>kube_Get = (\<lambda>k n. if n = ''default'' then Inr demo_pc
                         else Inl (ErrorsNew ''not found'')),
      CommonCredentialExtractor = (\<lambda>src k sel. if src = ''Secret'' \<and> sel = ''coder-creds''
                                   then Inr ''s3cr3t''
                                   else Inl (ErrorsNew ''cannot get credentials secret''))\<rparr>"

definition demo_connector :: "unit connector" where
  "demo_connector = \<lparr>kube = (), usage = (\<lambda>mg. None), newServiceFn = newCoderService\<rparr>"

definition untracked_connector :: "unit connector" where
  "untracked_connector =
     \<lparr>kube = (), usage = (\<lambda>mg. Some (ErrorsNew ''cannot apply ProviderConfigUsage'')),
      newServiceFn = newCoderService\<rparr>"

subsection \<open>The error kinds of the specification\<close>

text \<open>
  The specification names kinds of errors; the code returns wrapped messages. A
  credential resolution error is the failure to get the ProviderConfig or its
  credentials, a client construction error the failure of the service factory.
\<close>

fun is_CredentialResolutionError :: "goerror \<Rightarrow> bool" where
  "is_CredentialResolutionError (ErrorsWrap cause msg) = (msg = errGetPC \<or> msg = errGetCreds)"
| "is_CredentialResolutionError e = False"

fun is_ClientConstructionError :: "goerror \<Rightarrow> bool" where
  "is_ClientConstructionError (ErrorsWrap cause msg) = (msg = errNewClient)"
| "is_ClientConstructionError e = False"

subsection \<open>Measures of the JSON reader\<close>

text \<open>
  Used in the proofs about \<^const>\<open>read_object\<close>: the number of double quotes in a
  string, the characters a reader state accounts for (each character of a
  decoded string, one more for each double quote in it, since a double quote
  enters a string only through a two-character escape, and the punctuation),
  and the characters that stand for themselves inside a string.
\<close>

definition dq :: "string \<Rightarrow> nat" where
  "dq s = length (filter (\<lambda>ch. ch = dquote) s)"

fun member_weight :: "string \<times> string \<Rightarrow> nat" where
  "member_weight (k, v) = length k + dq k + length v + dq v + 5"

definition members_weight :: "(string \<times> string) list \<Rightarrow> nat" where
  "members_weight ms = sum_list (map member_weight ms)"

fun reader_weight :: "json_reader \<Rightarrow> nat" where
  "reader_weight RStart = 0"
| "reader_weight RFirst = 1"
| "reader_weight (RKey ms acc esc) =
     1 + members_weight ms + length ms + 1 + length acc + dq acc + (if esc then 1 else 0)"
| "reader_weight (RColon ms k) = 1 + members_weight ms + length ms + 2 + length k + dq k"
| "reader_weight (RValue ms k) = 1 + members_weight ms + length ms + 3 + length k + dq k"
| "reader_weight (RVal ms k acc esc) =
     1 + members_weight ms + length ms + 4 + length k + dq k + length acc + dq acc
       + (if esc then 1 else 0)"
| "reader_weight (RNext ms) = 1 + members_weight ms + (length ms - 1)"
| "reader_weight (RMember ms) = 1 + members_weight ms + length ms"
| "reader_weight (REnd ms) = 2 + members_weight ms + (length ms - 1)"

definition json_plain :: "char \<Rightarrow> bool" where
  "json_plain ch = (ch \<noteq> dquote \<and> ch \<noteq> backslash \<and> \<not> json_control ch)"

section \<open>Auxiliary facts\<close>

lemmas demo_defs = demo_env_def demo_roundtrip_def demo_cmd_Output_def demo_Unmarshal_user_def
  demo_Unmarshal_templates_def demo_user_body_def demo_templates_org1_def demo_templates_org2_def
  const_env_def no_user_env_def ws_dev_def ex_client_def nil_dereference_def
  index_out_of_range_def

lemmas request_defs = workspace_lookup_def user_lookup_def templates_lookup_def
  workspace_creation_def get_request_def post_request_def create_body_def delete_args_def

text \<open>Replacing every dot by nothing removes the dots.\<close>

lemma ReplaceAll_dot: "ReplaceAll s ''.'' [] = filter (\<lambda>ch. ch \<noteq> CHR ''.'') s"
proof (induction s)
  case Nil
  show ?case by (simp add: ReplaceAll.simps [of "[]"])
next
  case (Cons a s)
  then show ?case by (simp add: ReplaceAll.simps [of "a # s"])
qed

lemma user_lookup_jane_doe:
  "UserName (ForProvider cr) = ''jane.doe'' \<Longrightarrow>
   user_lookup c cr = get_request c ''/api/v2/users/janedoe''"
  by (simp add: user_lookup_def ReplaceAll_dot)

text \<open>
  The loop stops at the first template of the wanted name: a non-empty result is
  that template's id, and the result is empty when no template has the name.
\<close>

lemma find_templateID_found:
  "find_templateID ts wanted \<noteq> [] \<Longrightarrow>
   \<exists>pre t post. ts = pre @ t # post \<and> template_Name t = wanted
      \<and> template_ID t = find_templateID ts wanted
      \<and> list_all (\<lambda>x. template_Name x \<noteq> wanted) pre"
proof (induction ts)
  case Nil
  then show ?case by simp
next
  case (Cons a ts)
  show ?case
  proof (cases "template_Name a = wanted")
    case True
    then have "a # ts = [] @ a # ts \<and> template_Name a = wanted
        \<and> template_ID a = find_templateID (a # ts) wanted
        \<and> list_all (\<lambda>x. template_Name x \<noteq> wanted) []" by simp
    then show ?thesis by blast
  next
    case False
    with Cons.prems have "find_templateID ts wanted \<noteq> []" by simp
    from Cons.IH [OF this] obtain pre t post where
      h: "ts = pre @ t # post" "template_Name t = wanted"
         "template_ID t = find_templateID ts wanted"
         "list_all (\<lambda>x. template_Name x \<noteq> wanted) pre" by blast
    with False have "a # ts = (a # pre) @ t # post \<and> template_Name t = wanted
        \<and> template_ID t = find_templateID (a # ts) wanted
        \<and> list_all (\<lambda>x. template_Name x \<noteq> wanted) (a # pre)" by simp
    then show ?thesis by blast
  qed
qed

lemma find_templateID_first:
  "list_all (\<lambda>x. template_Name x \<noteq> wanted) pre \<Longrightarrow> template_Name t = wanted \<Longrightarrow>
   find_templateID (pre @ t # post) wanted = template_ID t"
  by (induction pre) auto

lemma find_templateID_absent:
  "list_all (\<lambda>t. template_Name t \<noteq> wanted) ts \<Longrightarrow> find_templateID ts wanted = []"
  by (induction ts) auto

text \<open>
  \<^const>\<open>Create\<close> once the user and the templates were fetched and decoded and the
  user has an organization: the result and the calls, by the outcome of the
  search for the template and the answer to the creation request.
\<close>

lemma Create_user_decoded:
  assumes "roundtrip env (remote w) (user_lookup c cr) = (Some r1, s1)"
    and "Unmarshal_user env (Body r1) = Inr user"
    and "user_Organization_ids user = org0 # orgs"
    and "roundtrip env s1 (templates_lookup c org0) = (Some r2, s2)"
    and "Unmarshal_templates env (Body r2) = Inr ts"
    and "roundtrip env s2
           (workspace_creation c org0 user (find_templateID ts (Template (ForProvider cr))) cr)
         = (ro3, s3)"
  shows "Create env c (WorkspaceMg cr) w =
     (if find_templateID ts (Template (ForProvider cr)) = []
      then (Returns (Inl (ErrorsNew ''template not found'')),
            \<lparr>remote = s2,
             calls = calls w @ [HTTPCall (user_lookup c cr), HTTPCall (templates_lookup c org0)]\<rparr>)
      else (case ro3 of
              None \<Rightarrow> Panics nil_dereference
            | Some r3 \<Rightarrow>
                if StatusCode r3 \<noteq> 201
                then Returns (Inl (ErrorfWString ''could not create workspace: %w''
                                    (user_Name user)))
                else Returns (Inr \<lparr>cre_ConnectionDetails = []\<rparr>),
            \<lparr>remote = (case ro3 of None \<Rightarrow> s2 | Some r3 \<Rightarrow> s3),
             calls = calls w @ [HTTPCall (user_lookup c cr), HTTPCall (templates_lookup c org0),
               HTTPCall (workspace_creation c org0 user
                  (find_templateID ts (Template (ForProvider cr))) cr)]\<rparr>))"
  using assms by (simp add: Create_def execute_def split: option.splits)

lemma Create_calls_resolved:
  assumes "roundtrip env (remote w) (user_lookup c cr) = (Some r1, s1)"
    and "Unmarshal_user env (Body r1) = Inr user"
    and "user_Organization_ids user = org0 # orgs"
    and "roundtrip env s1 (templates_lookup c org0) = (Some r2, s2)"
    and "Unmarshal_templates env (Body r2) = Inr ts"
    and "find_templateID ts (Template (ForProvider cr)) = tid"
    and "tid \<noteq> []"
  shows "calls (snd (Create env c (WorkspaceMg cr) w)) =
     calls w @ [HTTPCall (user_lookup c cr), HTTPCall (templates_lookup c org0),
                HTTPCall (workspace_creation c org0 user tid cr)]"
proof -
  obtain ro3 s3 where p: "roundtrip env s2
      (workspace_creation c org0 user (find_templateID ts (Template (ForProvider cr))) cr)
      = (ro3, s3)"
    by (cases "roundtrip env s2
      (workspace_creation c org0 user (find_templateID ts (Template (ForProvider cr))) cr)")
  from Create_user_decoded [OF assms(1-5) p] assms(6,7) show ?thesis by simp
qed

text \<open>A nil response to the lookup of \<^const>\<open>Observe\<close> is dereferenced at line 270.\<close>

lemma Observe_nil_response_panics:
  "roundtrip env (remote w) (workspace_lookup c cr) = (None, s') \<Longrightarrow>
   Observe env c (WorkspaceMg cr) w =
     (Panics nil_dereference,
      \<lparr>remote = remote w, calls = calls w @ [HTTPCall (workspace_lookup c cr)]\<rparr>)"
  by (simp add: Observe_def execute_def)

text \<open>A failure to track the usage of the ProviderConfig is returned first.\<close>

lemma Connect_untracked:
  "usage c (WorkspaceMg cr) = Some err \<Longrightarrow>
   Connect cl c (WorkspaceMg cr) = Returns (Inl (ErrorsWrap err errTrackPCUsage))"
  by (simp add: Connect_def)

text \<open>\<^const>\<open>Create\<close> never reads the organization of the desired state.\<close>

lemma Create_ignores_OrgID:
  "Create env c (WorkspaceMg (cr\<lparr>ForProvider := (ForProvider cr)\<lparr>OrgID := org\<rparr>\<rparr>)) w =
   Create env c (WorkspaceMg cr) w"
  by (simp add: Create_def user_lookup_def workspace_creation_def Let_def
      split: prod.splits sum.splits list.splits option.splits)

text \<open>What the example server answers to the two lookups of \<^const>\<open>Create\<close>.\<close>

lemma demo_user_lookup:
  "UserName (ForProvider cr) = ''jane.doe'' \<Longrightarrow>
   roundtrip demo_env s (user_lookup ex_client cr) = (Some (Response 200 demo_user_body), s)"
  by (simp add: demo_env_def demo_roundtrip_def user_lookup_def get_request_def ReplaceAll_dot)

lemma demo_user_decoded:
  "Unmarshal_user demo_env (Body (Response 200 demo_user_body)) =
     Inr \<lparr>user_ID = ''u1'', user_Name = ''janedoe'',
          user_Organization_ids = [''org2'', ''org1'']\<rparr>"
  by (simp add: demo_env_def demo_Unmarshal_user_def)

lemma demo_templates_lookup:
  "roundtrip demo_env s (templates_lookup ex_client ''org2'') =
     (Some (Response 200 demo_templates_org2), s)"
  by (simp add: demo_env_def demo_roundtrip_def templates_lookup_def get_request_def)

lemma demo_templates_decoded:
  "Unmarshal_templates demo_env (Body (Response 200 demo_templates_org2)) =
     Inr [\<lparr>template_ID = ''tpl-org2'', template_Name = ''base-image''\<rparr>]"
  by (simp add: demo_env_def demo_Unmarshal_templates_def demo_templates_org1_def
      demo_templates_org2_def)

subsection \<open>The JSON reader\<close>

lemma dq_Nil: "dq [] = 0"
  by (simp add: dq_def)

lemma dq_snoc: "dq (s @ [ch]) = dq s + (if ch = dquote then 1 else 0)"
  by (simp add: dq_def)

lemma dq_zero: "dq s = 0 \<longleftrightarrow> dquote \<notin> set s"
  by (auto simp: dq_def filter_empty_conv)

lemma members_weight_Nil: "members_weight [] = 0"
  by (simp add: members_weight_def)

lemma members_weight_snoc: "members_weight (ms @ [m]) = members_weight ms + member_weight m"
  by (simp add: members_weight_def)

text \<open>Each character read adds at most one to what the reader accounts for.\<close>

lemma json_step_weight:
  "json_step st ch = Some st' \<Longrightarrow> reader_weight st' \<le> reader_weight st + 1"
proof (cases st)
  case (RKey ms acc esc)
  assume "json_step st ch = Some st'"
  with RKey show ?thesis
    by (cases esc) (auto simp: dq_Nil dq_snoc json_unescape_def split: if_splits option.splits)
next
  case (RVal ms k acc esc)
  assume "json_step st ch = Some st'"
  with RVal show ?thesis
    by (cases esc)
       (auto simp: dq_Nil dq_snoc members_weight_snoc json_unescape_def
          split: if_splits option.splits)
qed (auto simp: dq_Nil members_weight_Nil split: if_splits)

lemma json_run_weight:
  "json_run st s = Some st' \<Longrightarrow> reader_weight st' \<le> reader_weight st + length s"
proof (induction s arbitrary: st)
  case Nil
  then show ?case by simp
next
  case (Cons ch s)
  from Cons.prems obtain st1 where
    s1: "json_step st ch = Some st1" and r: "json_run st1 s = Some st'"
    by (auto split: option.splits)
  from json_step_weight [OF s1] Cons.IH [OF r] show ?case by simp
qed

lemma read_object_weight:
  assumes "read_object s = Some ms"
  shows "2 + members_weight ms + (length ms - 1) \<le> length s"
proof -
  from assms have "json_run RStart s = Some (REnd ms)"
    by (auto simp: read_object_def split: option.splits json_reader.splits)
  from json_run_weight [OF this] show ?thesis by simp
qed

lemma create_body_length: "length (create_body tid name) = 28 + length tid + length name"
  by (simp add: create_body_def)

text \<open>
  A body that reads back as the two intended members has no character to spare
  for an escape, so neither the template id nor the name holds a double quote.
\<close>

lemma create_body_read_back:
  assumes "read_object (create_body tid name) = Some [(''template_id'', tid), (''name'', name)]"
  shows "dq tid = 0 \<and> dq name = 0"
  using read_object_weight [OF assms]
  by (simp add: create_body_length members_weight_def dq_def dquote_def)

lemma json_run_RVal_plain:
  "list_all json_plain s \<Longrightarrow>
   json_run (RVal ms k acc False) (s @ rest) = json_run (RVal ms k (acc @ s) False) rest"
  by (induction s arbitrary: acc) (auto simp: json_plain_def)

text \<open>
  When the template id and the name hold no double quote, backslash or control
  character, the body is the encoding of the two intended members.
\<close>

lemma create_body_plain:
  assumes "list_all json_plain tid" and "list_all json_plain name"
  shows "read_object (create_body tid name) = Some [(''template_id'', tid), (''name'', name)]"
  using assms
  by (simp add: read_object_def create_body_def dquote_def backslash_def json_space_def
      json_control_def json_run_RVal_plain)

lemma err_consts_distinct:
  "errNewClient \<noteq> errGetPC" "errNewClient \<noteq> errGetCreds" "errGetPC \<noteq> errGetCreds"
  "errTrackPCUsage \<noteq> errGetPC" "errTrackPCUsage \<noteq> errGetCreds" "errTrackPCUsage \<noteq> errNewClient"
  by (simp_all add: errNewClient_def errGetPC_def errGetCreds_def errTrackPCUsage_def)

section \<open>Properties\<close>

subsection \<open>Observe\<close>

text \<open>
  C1, as stated, does not hold: the specification asks \<^verbatim>\<open>Observe\<close> to answer a 5xx
  status or a failed round trip with a retryable error and never with "does not
  exist". Against a server that answers 503 while the workspace exists, and
  against a round trip that fails, \<^verbatim>\<open>Observe\<close> returns no error and reports that
  the resource does not exist.
\<close>

theorem Observe_5xx_counterexample:
  "Observe (const_env (Response 503 [])) ex_client (WorkspaceMg ws_dev)
       \<lparr>remote = [''dev''], calls = []\<rparr> =
     (Returns (Inr \<lparr>ResourceExists = False, ResourceUpToDate = False,
                    obs_ConnectionDetails = []\<rparr>),
      \<lparr>remote = [''dev''], calls = [HTTPCall (workspace_lookup ex_client ws_dev)]\<rparr>)
   \<and> fst (Observe (const_env (NoResponse (ErrorsNew ''connection refused''))) ex_client
            (WorkspaceMg ws_dev) \<lparr>remote = [''dev''], calls = []\<rparr>) =
      Returns (Inr \<lparr>ResourceExists = False, ResourceUpToDate = False,
                     obs_ConnectionDetails = []\<rparr>)"
  by (simp add: Observe_def execute_def const_env_def)

text \<open>
  C1, amended. For every Workspace for which the HTTP client hands back a
  response to the lookup, \<^verbatim>\<open>Observe\<close> has made that one call, a GET of
  \<^verbatim>\<open>/api/v2/users/me/workspace/\<close> followed by the object's name, and returns no
  error: it reports the resource as existing (and up to date) exactly when the
  status of the response is 200, and on every other status, a 5xx and the status
  0 of a failed round trip included, it reports that the resource does not
  exist.
\<close>

theorem Observe_never_fails:
  assumes "roundtrip env (remote w) (workspace_lookup c cr) = (Some resp, s')"
  shows "Observe env c (WorkspaceMg cr) w =
     (Returns (Inr \<lparr>ResourceExists = (StatusCode resp = 200),
                    ResourceUpToDate = (StatusCode resp = 200),
                    obs_ConnectionDetails = []\<rparr>),
      \<lparr>remote = s',
       calls = calls w @
         [HTTPCall \<lparr>req_Method = GET, req_HostURL = coderurl (service c),
                    req_Header = [(''Accept'', ''application/json''),
                                  (''Coder-Session-Token'', token (service c))],
                    req_Body = None,
                    req_Path = ''/api/v2/users/me/workspace/'' @ Name cr\<rparr>]\<rparr>)"
  using assms by (simp add: Observe_def execute_def workspace_lookup_def get_request_def)

text \<open>
  The example server, holding the workspace, answers 200; the server that is
  out of service answers 503.
\<close>

theorem Observe_never_fails_witness:
  "roundtrip demo_env [''dev''] (workspace_lookup ex_client ws_dev) =
     (Some (Response 200 []), [''dev''])
   \<and> Observe demo_env ex_client (WorkspaceMg ws_dev) \<lparr>remote = [''dev''], calls = []\<rparr> =
     (Returns (Inr \<lparr>ResourceExists = True, ResourceUpToDate = True,
                    obs_ConnectionDetails = []\<rparr>),
      \<lparr>remote = [''dev''],
       calls = [HTTPCall \<lparr>req_Method = GET, req_HostURL = ''https://coder.example.com'',
                          req_Header = [(''Accept'', ''application/json''),
                                        (''Coder-Session-Token'', ''s3cr3t'')],
                          req_Body = None,
                          req_Path = ''/api/v2/users/me/workspace/dev''\<rparr>]\<rparr>)
   \<and> roundtrip (const_env (Response 503 [])) [''dev''] (workspace_lookup ex_client ws_dev) =
     (Some (Response 503 []), [''dev''])
   \<and> fst (Observe (const_env (Response 503 [])) ex_client (WorkspaceMg ws_dev)
            \<lparr>remote = [''dev''], calls = []\<rparr>) =
     Returns (Inr \<lparr>ResourceExists = False, ResourceUpToDate = False,
                    obs_ConnectionDetails = []\<rparr>)"
proof -
  have h: "roundtrip demo_env (remote \<lparr>remote = [''dev''], calls = []\<rparr>)
             (workspace_lookup ex_client ws_dev) = (Some (Response 200 []), [''dev''])"
    by (simp add: demo_defs request_defs)
  have g: "roundtrip (const_env (Response 503 [])) (remote \<lparr>remote = [''dev''], calls = []\<rparr>)
             (workspace_lookup ex_client ws_dev) = (Some (Response 503 []), [''dev''])"
    by (simp add: const_env_def)
  show ?thesis
    using h g Observe_never_fails [OF h] Observe_never_fails [OF g]
    by (simp add: ex_client_def ws_dev_def)
qed

text \<open>
  C8. Whenever \<^verbatim>\<open>Observe\<close> reports that the external resource exists, which it
  does only for a Workspace whose lookup was answered with status 200, it also
  reports the resource up to date, with empty connection details: no observation
  asks for an update.
\<close>

theorem Observe_exists_up_to_date:
  assumes "fst (Observe env c mg w) = Returns (Inr ob)" and "ResourceExists ob"
  shows "ResourceUpToDate ob \<and> obs_ConnectionDetails ob = []
     \<and> (\<exists>cr resp. mg = WorkspaceMg cr
           \<and> fst (roundtrip env (remote w) (workspace_lookup c cr)) = Some resp
           \<and> StatusCode resp = 200)"
proof (cases mg)
  case (TokenMg t)
  with assms show ?thesis by (simp add: Observe_def)
next
  case (WorkspaceMg cr)
  obtain ro s' where r: "roundtrip env (remote w) (workspace_lookup c cr) = (ro, s')"
    by (cases "roundtrip env (remote w) (workspace_lookup c cr)")
  with assms WorkspaceMg show ?thesis
    by (cases ro) (auto simp: Observe_def execute_def split: if_splits)
qed

theorem Observe_exists_up_to_date_witness:
  "fst (Observe demo_env ex_client (WorkspaceMg ws_dev) \<lparr>remote = [''dev''], calls = []\<rparr>) =
     Returns (Inr \<lparr>ResourceExists = True, ResourceUpToDate = True,
                    obs_ConnectionDetails = []\<rparr>)
   \<and> ResourceExists \<lparr>ResourceExists = True, ResourceUpToDate = True, obs_ConnectionDetails = []\<rparr>
   \<and> ResourceUpToDate \<lparr>ResourceExists = True, ResourceUpToDate = True, obs_ConnectionDetails = []\<rparr>
   \<and> fst (roundtrip demo_env [''dev''] (workspace_lookup ex_client ws_dev)) =
       Some (Response 200 [])"
proof -
  have h: "fst (Observe demo_env ex_client (WorkspaceMg ws_dev) \<lparr>remote = [''dev''], calls = []\<rparr>) =
     Returns (Inr \<lparr>ResourceExists = True, ResourceUpToDate = True,
                    obs_ConnectionDetails = []\<rparr>)"
    by (simp add: Observe_def execute_def demo_defs request_defs)
  have e: "ResourceExists \<lparr>ResourceExists = True, ResourceUpToDate = True, obs_ConnectionDetails = []\<rparr>"
    by simp
  have r: "fst (roundtrip demo_env [''dev''] (workspace_lookup ex_client ws_dev)) =
       Some (Response 200 [])"
    by (simp add: demo_defs request_defs)
  show ?thesis using h e r Observe_exists_up_to_date [OF h e] by simp
qed

subsection \<open>Update\<close>

text \<open>
  C7. For every Workspace, \<^verbatim>\<open>Update\<close> is a no-op: it makes no call to the remote
  service or to any other collaborator, leaves the state of the remote service
  as it was, and returns success with empty connection details.
\<close>

theorem Update_noop:
  "Update env c (WorkspaceMg cr) w = (Inr \<lparr>upd_ConnectionDetails = []\<rparr>, w)
   \<and> calls (snd (Update env c (WorkspaceMg cr) w)) = calls w
   \<and> remote (snd (Update env c (WorkspaceMg cr) w)) = remote w"
  by (simp add: Update_def)

subsection \<open>Delete\<close>

text \<open>
  C2, as stated, does not hold: the specification asks \<^verbatim>\<open>Delete\<close> to return an
  error, distinct from the already-gone case, when the remote deletion fails.
  Here the workspace exists, the command fails and leaves it in place, and
  \<^verbatim>\<open>Delete\<close> returns nil.
\<close>

theorem Delete_failure_counterexample:
  "cmd_Output (const_env (Response 503 [])) [''dev''] ''/usr/local/bin/coder''
       (delete_args ex_client ws_dev) = (([], Some (ErrorsNew ''exit status 1'')), [''dev''])
   \<and> Delete (const_env (Response 503 [])) ex_client (WorkspaceMg ws_dev)
         \<lparr>remote = [''dev''], calls = []\<rparr> =
       (None, \<lparr>remote = [''dev''],
               calls = [ExecCall ''/usr/local/bin/coder'' (delete_args ex_client ws_dev)]\<rparr>)"
  by (simp add: Delete_def run_Output_def const_env_def)

text \<open>
  C2, amended. For every Workspace, \<^verbatim>\<open>Delete\<close> runs the deletion command once
  and returns nil whatever the command returned: deleting an already absent
  resource is a success, deleting twice is a success both times, and a failed
  deletion is a success as well, so it is not told apart from the already-gone
  case.
\<close>

theorem Delete_returns_nil:
  "fst (Delete env c (WorkspaceMg cr) w) = None
   \<and> calls (snd (Delete env c (WorkspaceMg cr) w)) =
       calls w @ [ExecCall ''/usr/local/bin/coder'' (delete_args c cr)]
   \<and> fst (Delete env c (WorkspaceMg cr) (snd (Delete env c (WorkspaceMg cr) w))) = None"
  by (simp add: Delete_def run_Output_def split: prod.splits)

subsection \<open>Create\<close>

text \<open>
  C3, as stated, does not hold: the desired state names the organization
  \<^verbatim>\<open>org1\<close>, which has a template \<^verbatim>\<open>base-image\<close> of its own, but the user's first
  organization is \<^verbatim>\<open>org2\<close>. \<^verbatim>\<open>Create\<close> never asks for the templates of \<^verbatim>\<open>org1\<close>:
  it fetches those of \<^verbatim>\<open>org2\<close> and posts the id of the template of \<^verbatim>\<open>org2\<close>.
\<close>

theorem Create_other_org_counterexample:
  "OrgID (ForProvider ws_dev) = ''org1''
   \<and> fst (roundtrip demo_env [] (get_request ex_client ''/api/v2/organizations/org1/templates''))
       = Some (Response 200 demo_templates_org1)
   \<and> Unmarshal_templates demo_env demo_templates_org1 =
       Inr [\<lparr>template_ID = ''tpl-org1'', template_Name = ''base-image''\<rparr>]
   \<and> calls (snd (Create demo_env ex_client (WorkspaceMg ws_dev) \<lparr>remote = [], calls = []\<rparr>)) =
       [HTTPCall (get_request ex_client ''/api/v2/users/janedoe''),
        HTTPCall (get_request ex_client ''/api/v2/organizations/org2/templates''),
        HTTPCall (post_request ex_client (create_body ''tpl-org2'' ''dev'')
           ''/api/v2/organizations/org2/members/u1/workspaces'')]"
  by (simp add: Create_def execute_def demo_defs request_defs ReplaceAll_dot)

text \<open>
  C3, amended. For the desired state with the user name \<^verbatim>\<open>jane.doe\<close> and the
  template \<^verbatim>\<open>base-image\<close>, whatever its organization: \<^verbatim>\<open>Create\<close> looks the user
  up under the name \<^verbatim>\<open>janedoe\<close> and fetches the templates of the first
  organization of that user. When the first template named \<^verbatim>\<open>base-image\<close> in
  that list has a non-empty id, \<^verbatim>\<open>Create\<close> makes exactly one POST, to
  \<^verbatim>\<open>/api/v2/organizations/\<close> that organization \<^verbatim>\<open>/members/\<close> the user's id
  \<^verbatim>\<open>/workspaces\<close>, whose body carries that template's id and the object's name;
  these three are all its calls. The organization of the desired state has no
  influence on the result.
\<close>

theorem Create_jane_doe:
  assumes "UserName (ForProvider cr) = ''jane.doe''"
    and "Template (ForProvider cr) = ''base-image''"
    and "roundtrip env (remote w) (get_request c ''/api/v2/users/janedoe'') = (Some r1, s1)"
    and "Unmarshal_user env (Body r1) = Inr user"
    and "user_Organization_ids user = org0 # orgs"
    and "roundtrip env s1 (get_request c (''/api/v2/organizations/'' @ org0 @ ''/templates''))
         = (Some r2, s2)"
    and "Unmarshal_templates env (Body r2) = Inr (pre @ t # post)"
    and "list_all (\<lambda>x. template_Name x \<noteq> ''base-image'') pre"
    and "template_Name t = ''base-image''"
    and "template_ID t \<noteq> []"
  shows \<open>calls (snd (Create env c (WorkspaceMg cr) w)) =
       calls w @
       [HTTPCall \<lparr>req_Method = GET, req_HostURL = coderurl (service c),
                  req_Header = [(''Accept'', ''application/json''),
                                (''Coder-Session-Token'', token (service c))],
                  req_Body = None,
                  req_Path = ''/api/v2/users/janedoe''\<rparr>,
        HTTPCall \<lparr>req_Method = GET, req_HostURL = coderurl (service c),
                  req_Header = [(''Accept'', ''application/json''),
                                (''Coder-Session-Token'', token (service c))],
                  req_Body = None,
                  req_Path = ''/api/v2/organizations/'' @ org0 @ ''/templates''\<rparr>,
        HTTPCall \<lparr>req_Method = POST, req_HostURL = coderurl (service c),
                  req_Header = [(''Content-Type'', ''application/json''),
                                (''Accept'', ''application/json''),
                                (''Coder-Session-Token'', token (service c))],
                  req_Body = Some (''{"template_id":"'' @ template_ID t
                                     @ ''","name":"'' @ Name cr @ ''"}''),
                  req_Path = ''/api/v2/organizations/'' @ org0 @ ''/members/''
                               @ user_ID user @ ''/workspaces''\<rparr>]
     \<and> Create env c (WorkspaceMg (cr\<lparr>ForProvider := (ForProvider cr)\<lparr>OrgID := org\<rparr>\<rparr>)) w =
       Create env c (WorkspaceMg cr) w\<close>
proof -
  have u: "user_lookup c cr = get_request c ''/api/v2/users/janedoe''"
    using assms(1) by (rule user_lookup_jane_doe)
  have f: "find_templateID (pre @ t # post) (Template (ForProvider cr)) = template_ID t"
    using find_templateID_first [of "''base-image''" pre t post] assms(2,8,9) by simp
  have a1: "roundtrip env (remote w) (user_lookup c cr) = (Some r1, s1)"
    using assms(3) u by simp
  have a4: "roundtrip env s1 (templates_lookup c org0) = (Some r2, s2)"
    using assms(6) by (simp add: templates_lookup_def)
  from Create_calls_resolved [OF a1 assms(4,5) a4 assms(7) f assms(10)]
  have \<open>calls (snd (Create env c (WorkspaceMg cr) w)) =
       calls w @
       [HTTPCall \<lparr>req_Method = GET, req_HostURL = coderurl (service c),
                  req_Header = [(''Accept'', ''application/json''),
                                (''Coder-Session-Token'', token (service c))],
                  req_Body = None,
                  req_Path = ''/api/v2/users/janedoe''\<rparr>,
        HTTPCall \<lparr>req_Method = GET, req_HostURL = coderurl (service c),
                  req_Header = [(''Accept'', ''application/json''),
                                (''Coder-Session-Token'', token (service c))],
                  req_Body = None,
                  req_Path = ''/api/v2/organizations/'' @ org0 @ ''/templates''\<rparr>,
        HTTPCall \<lparr>req_Method = POST, req_HostURL = coderurl (service c),
                  req_Header = [(''Content-Type'', ''application/json''),
                                (''Accept'', ''application/json''),
                                (''Coder-Session-Token'', token (service c))],
                  req_Body = Some (''{"template_id":"'' @ template_ID t
                                     @ ''","name":"'' @ Name cr @ ''"}''),
                  req_Path = ''/api/v2/organizations/'' @ org0 @ ''/members/''
                               @ user_ID user @ ''/workspaces''\<rparr>]\<close>
    using u
    by (simp add: templates_lookup_def workspace_creation_def get_request_def post_request_def
        create_body_def)
  with Create_ignores_OrgID show ?thesis by blast
qed

text \<open>
  On the server whose first organization of the user is \<^verbatim>\<open>org2\<close> and whose
  template \<^verbatim>\<open>base-image\<close> is the second of the list.
\<close>

theorem Create_jane_doe_witness:
  \<open>UserName (ForProvider ws_dev) = ''jane.doe''
   \<and> Template (ForProvider ws_dev) = ''base-image''
   \<and> Unmarshal_templates shelf_env (Body (Response 200 shelf_templates_body)) =
       Inr ([\<lparr>template_ID = ''tpl-gpu'', template_Name = ''gpu-image''\<rparr>]
            @ \<lparr>template_ID = ''tpl-base'', template_Name = ''base-image''\<rparr>
            # [\<lparr>template_ID = [], template_Name = ''bare-image''\<rparr>,
               \<lparr>template_ID = ''tpl-bare'', template_Name = ''bare-image''\<rparr>])
   \<and> calls (snd (Create shelf_env ex_client (WorkspaceMg ws_dev) \<lparr>remote = [], calls = []\<rparr>)) =
       [HTTPCall \<lparr>req_Method = GET, req_HostURL = ''https://coder.example.com'',
                  req_Header = [(''Accept'', ''application/json''),
                                (''Coder-Session-Token'', ''s3cr3t'')],
                  req_Body = None,
                  req_Path = ''/api/v2/users/janedoe''\<rparr>,
        HTTPCall \<lparr>req_Method = GET, req_HostURL = ''https://coder.example.com'',
                  req_Header = [(''Accept'', ''application/json''),
                                (''Coder-Session-Token'', ''s3cr3t'')],
                  req_Body = None,
                  req_Path = ''/api/v2/organizations/org2/templates''\<rparr>,
        HTTPCall \<lparr>req_Method = POST, req_HostURL = ''https://coder.example.com'',
                  req_Header = [(''Content-Type'', ''application/json''),
                                (''Accept'', ''application/json''),
                                (''Coder-Session-Token'', ''s3cr3t'')],
                  req_Body = Some ''{"template_id":"tpl-base","name":"dev"}'',
                  req_Path = ''/api/v2/organizations/org2/members/u1/workspaces''\<rparr>]\<close>
proof -
  let ?user = "\<lparr>user_ID = ''u1'', user_Name = ''janedoe'',
                user_Organization_ids = [''org2'', ''org1'']\<rparr>"
  let ?pre = "[\<lparr>template_ID = ''tpl-gpu'', template_Name = ''gpu-image''\<rparr>]"
  let ?t = "\<lparr>template_ID = ''tpl-base'', template_Name = ''base-image''\<rparr>"
  let ?post = "[\<lparr>template_ID = [], template_Name = ''bare-image''\<rparr>,
                \<lparr>template_ID = ''tpl-bare'', template_Name = ''bare-image''\<rparr>]"
  have h1: "UserName (ForProvider ws_dev) = ''jane.doe''" by (simp add: ws_dev_def)
  have h2: "Template (ForProvider ws_dev) = ''base-image''" by (simp add: ws_dev_def)
  have h3: "roundtrip shelf_env (remote \<lparr>remote = [], calls = []\<rparr>)
              (get_request ex_client ''/api/v2/users/janedoe'')
            = (Some (Response 200 demo_user_body), [])"
    by (simp add: shelf_env_def get_request_def)
  have h4: "Unmarshal_user shelf_env (Body (Response 200 demo_user_body)) = Inr ?user"
    by (simp add: shelf_env_def demo_Unmarshal_user_def)
  have h5: "user_Organization_ids ?user = ''org2'' # [''org1'']" by simp
  have h6: "roundtrip shelf_env []
              (get_request ex_client (''/api/v2/organizations/'' @ ''org2'' @ ''/templates''))
            = (Some (Response 200 shelf_templates_body), [])"
    by (simp add: shelf_env_def get_request_def)
  have h7: "Unmarshal_templates shelf_env (Body (Response 200 shelf_templates_body)) =
              Inr (?pre @ ?t # ?post)"
    by (simp add: shelf_env_def shelf_templates_def)
  have h8: "list_all (\<lambda>x. template_Name x \<noteq> ''base-image'') ?pre" by simp
  have h9: "template_Name ?t = ''base-image''" by simp
  have h10: "template_ID ?t \<noteq> []" by simp
  show ?thesis
    using h1 h2 h7 Create_jane_doe [OF h1 h2 h3 h4 h5 h6 h7 h8 h9 h10]
    by (simp add: ws_dev_def ex_client_def)
qed

text \<open>
  C4, as stated, does not hold: on the example server a first \<^verbatim>\<open>Create\<close>
  succeeds and leaves the workspace \<^verbatim>\<open>dev\<close> behind, \<^verbatim>\<open>Observe\<close> then reports that
  it exists, and a second \<^verbatim>\<open>Create\<close> for the same object, answered 409 by the
  server, returns an error.
\<close>

theorem Create_retry_counterexample:
  "Create demo_env ex_client (WorkspaceMg ws_dev) \<lparr>remote = [], calls = []\<rparr> =
     (Returns (Inr \<lparr>cre_ConnectionDetails = []\<rparr>),
      \<lparr>remote = [''dev''],
       calls = [HTTPCall (user_lookup ex_client ws_dev),
                HTTPCall (templates_lookup ex_client ''org2''),
                HTTPCall (workspace_creation ex_client ''org2''
                   \<lparr>user_ID = ''u1'', user_Name = ''janedoe'',
                     user_Organization_ids = [''org2'', ''org1'']\<rparr> ''tpl-org2'' ws_dev)]\<rparr>)
   \<and> fst (Observe demo_env ex_client (WorkspaceMg ws_dev) \<lparr>remote = [''dev''], calls = []\<rparr>) =
       Returns (Inr \<lparr>ResourceExists = True, ResourceUpToDate = True,
                      obs_ConnectionDetails = []\<rparr>)
   \<and> fst (Create demo_env ex_client (WorkspaceMg ws_dev) \<lparr>remote = [''dev''], calls = []\<rparr>) =
       Returns (Inl (ErrorfWString ''could not create workspace: %w'' ''janedoe''))"
  by (simp add: Create_def Observe_def execute_def demo_defs request_defs ReplaceAll_dot)

text \<open>
  C4, amended. \<^verbatim>\<open>Create\<close> does not look for an existing workspace: once the user
  and the template are resolved it makes the creation request, its only calls
  being the two lookups and that request, and it returns success exactly when
  the request is answered with status 201; on every other status, such as the
  refusal of a name that is taken, it returns an error.
\<close>

theorem Create_succeeds_iff_201:
  assumes "roundtrip env (remote w) (user_lookup c cr) = (Some r1, s1)"
    and "Unmarshal_user env (Body r1) = Inr user"
    and "user_Organization_ids user = org0 # orgs"
    and "roundtrip env s1 (templates_lookup c org0) = (Some r2, s2)"
    and "Unmarshal_templates env (Body r2) = Inr ts"
    and "find_templateID ts (Template (ForProvider cr)) = tid"
    and "tid \<noteq> []"
    and "roundtrip env s2 (workspace_creation c org0 user tid cr) = (Some r3, s3)"
  shows "fst (Create env c (WorkspaceMg cr) w) =
       (if StatusCode r3 = 201 then Returns (Inr \<lparr>cre_ConnectionDetails = []\<rparr>)
        else Returns (Inl (ErrorfWString ''could not create workspace: %w'' (user_Name user))))
     \<and> calls (snd (Create env c (WorkspaceMg cr) w)) =
        calls w @ [HTTPCall (user_lookup c cr), HTTPCall (templates_lookup c org0),
                   HTTPCall (workspace_creation c org0 user tid cr)]
     \<and> remote (snd (Create env c (WorkspaceMg cr) w)) = s3"
  using Create_user_decoded [of env w c cr r1 s1 user org0 orgs r2 s2 ts "Some r3" s3] assms
  by simp

text \<open>On the example server that already holds the workspace: the answer is 409.\<close>

theorem Create_succeeds_iff_201_witness:
  "roundtrip demo_env [''dev'']
      (workspace_creation ex_client ''org2''
         \<lparr>user_ID = ''u1'', user_Name = ''janedoe'',
           user_Organization_ids = [''org2'', ''org1'']\<rparr> ''tpl-org2'' ws_dev)
     = (Some (Response 409 []), [''dev''])
   \<and> fst (Create demo_env ex_client (WorkspaceMg ws_dev) \<lparr>remote = [''dev''], calls = []\<rparr>) =
       Returns (Inl (ErrorfWString ''could not create workspace: %w'' ''janedoe''))
   \<and> calls (snd (Create demo_env ex_client (WorkspaceMg ws_dev) \<lparr>remote = [''dev''], calls = []\<rparr>)) =
        [HTTPCall (user_lookup ex_client ws_dev), HTTPCall (templates_lookup ex_client ''org2''),
         HTTPCall (workspace_creation ex_client ''org2''
            \<lparr>user_ID = ''u1'', user_Name = ''janedoe'',
              user_Organization_ids = [''org2'', ''org1'']\<rparr> ''tpl-org2'' ws_dev)]
   \<and> remote (snd (Create demo_env ex_client (WorkspaceMg ws_dev) \<lparr>remote = [''dev''], calls = []\<rparr>))
       = [''dev'']"
proof -
  let ?user = "\<lparr>user_ID = ''u1'', user_Name = ''janedoe'',
                user_Organization_ids = [''org2'', ''org1'']\<rparr>"
  let ?ts = "[\<lparr>template_ID = ''tpl-org2'', template_Name = ''base-image''\<rparr>]"
  have n: "UserName (ForProvider ws_dev) = ''jane.doe''" by (simp add: ws_dev_def)
  have h1: "roundtrip demo_env (remote \<lparr>remote = [''dev''], calls = []\<rparr>)
              (user_lookup ex_client ws_dev) = (Some (Response 200 demo_user_body), [''dev''])"
    using demo_user_lookup [OF n] by simp
  have h3: "user_Organization_ids ?user = ''org2'' # [''org1'']" by simp
  have h6: "find_templateID ?ts (Template (ForProvider ws_dev)) = ''tpl-org2''"
    by (simp add: ws_dev_def)
  have h7: "''tpl-org2'' \<noteq> []" by simp
  have h8: "roundtrip demo_env [''dev'']
              (workspace_creation ex_client ''org2'' ?user ''tpl-org2'' ws_dev)
            = (Some (Response 409 []), [''dev''])"
    by (simp add: demo_defs request_defs)
  show ?thesis
    using h8 Create_succeeds_iff_201 [OF h1 demo_user_decoded h3 demo_templates_lookup
        demo_templates_decoded h6 h7 h8]
    by simp
qed

text \<open>
  C5, as stated, does not hold for every desired state: \<^verbatim>\<open>Create\<close> can end
  without resolving a template id and without the error for a template that is
  not there. When the template lookup is answered 503 with an empty body,
  \<^verbatim>\<open>Create\<close> returns the error of the decoder, and so it does when the user
  lookup is.
\<close>

theorem Create_decode_error_counterexample:
  "Template (ForProvider ws_dev) = ''base-image''
   \<and> Create outage_env ex_client (WorkspaceMg ws_dev) \<lparr>remote = [], calls = []\<rparr> =
       (Returns (Inl (ErrorfW ''failed to decode templates response: %w''
                        (ErrorsNew ''unexpected end of JSON input''))),
        \<lparr>remote = [],
         calls = [HTTPCall (user_lookup ex_client ws_dev),
                  HTTPCall (templates_lookup ex_client ''org2'')]\<rparr>)
   \<and> Create (const_env (Response 503 [])) ex_client (WorkspaceMg ws_dev)
         \<lparr>remote = [], calls = []\<rparr> =
       (Returns (Inl (ErrorfW ''failed to decode user response: %w''
                        (ErrorsNew ''unexpected end of JSON input''))),
        \<lparr>remote = [], calls = [HTTPCall (user_lookup ex_client ws_dev)]\<rparr>)"
  by (simp add: Create_def execute_def outage_env_def demo_defs request_defs ReplaceAll_dot)

text \<open>
  C5, amended. For every desired state, once the user is decoded with at least
  one organization and the list of templates is fetched and decoded: when the
  first template of the list whose name is the desired one has a non-empty id,
  \<^verbatim>\<open>Create\<close> resolves that one id and makes exactly one creation request, whose
  body carries it; when no template of the list has the desired name, or the
  first that has it has an empty id, \<^verbatim>\<open>Create\<close> fails with the error "template
  not found" and makes no creation request. (A user or template response that
  does not decode is returned as the decoder's error instead.)
\<close>

theorem Create_resolves_template:
  assumes "roundtrip env (remote w) (user_lookup c cr) = (Some r1, s1)"
    and "Unmarshal_user env (Body r1) = Inr user"
    and "user_Organization_ids user = org0 # orgs"
    and "roundtrip env s1 (templates_lookup c org0) = (Some r2, s2)"
    and "Unmarshal_templates env (Body r2) = Inr ts"
  shows \<open>(\<forall>pre t post. ts = pre @ t # post
            \<and> list_all (\<lambda>x. template_Name x \<noteq> Template (ForProvider cr)) pre
            \<and> template_Name t = Template (ForProvider cr) \<and> template_ID t \<noteq> []
          \<longrightarrow> calls (snd (Create env c (WorkspaceMg cr) w)) =
                calls w @
                [HTTPCall (user_lookup c cr), HTTPCall (templates_lookup c org0),
                 HTTPCall \<lparr>req_Method = POST, req_HostURL = coderurl (service c),
                           req_Header = [(''Content-Type'', ''application/json''),
                                         (''Accept'', ''application/json''),
                                         (''Coder-Session-Token'', token (service c))],
                           req_Body = Some (''{"template_id":"'' @ template_ID t
                                              @ ''","name":"'' @ Name cr @ ''"}''),
                           req_Path = ''/api/v2/organizations/'' @ org0 @ ''/members/''
                                        @ user_ID user @ ''/workspaces''\<rparr>])
     \<and> (\<forall>pre t post. ts = pre @ t # post
            \<and> list_all (\<lambda>x. template_Name x \<noteq> Template (ForProvider cr)) pre
            \<and> template_Name t = Template (ForProvider cr) \<and> template_ID t = []
          \<longrightarrow> Create env c (WorkspaceMg cr) w =
                (Returns (Inl (ErrorsNew ''template not found'')),
                 \<lparr>remote = s2,
                  calls = calls w @ [HTTPCall (user_lookup c cr),
                                     HTTPCall (templates_lookup c org0)]\<rparr>))
     \<and> (list_all (\<lambda>x. template_Name x \<noteq> Template (ForProvider cr)) ts
          \<longrightarrow> Create env c (WorkspaceMg cr) w =
                (Returns (Inl (ErrorsNew ''template not found'')),
                 \<lparr>remote = s2,
                  calls = calls w @ [HTTPCall (user_lookup c cr),
                                     HTTPCall (templates_lookup c org0)]\<rparr>))\<close>
proof -
  let ?wanted = "Template (ForProvider cr)"
  let ?tid = "find_templateID ts ?wanted"
  obtain ro3 s3 where p: "roundtrip env s2 (workspace_creation c org0 user ?tid cr) = (ro3, s3)"
    by (cases "roundtrip env s2 (workspace_creation c org0 user ?tid cr)")
  note cr = Create_user_decoded [OF assms p]
  have A: \<open>calls (snd (Create env c (WorkspaceMg cr) w)) =
                calls w @
                [HTTPCall (user_lookup c cr), HTTPCall (templates_lookup c org0),
                 HTTPCall \<lparr>req_Method = POST, req_HostURL = coderurl (service c),
                           req_Header = [(''Content-Type'', ''application/json''),
                                         (''Accept'', ''application/json''),
                                         (''Coder-Session-Token'', token (service c))],
                           req_Body = Some (''{"template_id":"'' @ template_ID t
                                              @ ''","name":"'' @ Name cr @ ''"}''),
                           req_Path = ''/api/v2/organizations/'' @ org0 @ ''/members/''
                                        @ user_ID user @ ''/workspaces''\<rparr>]\<close>
    if "ts = pre @ t # post" "list_all (\<lambda>x. template_Name x \<noteq> ?wanted) pre"
       "template_Name t = ?wanted" "template_ID t \<noteq> []" for pre t post
  proof -
    from that have "?tid = template_ID t" using find_templateID_first by blast
    with that(4) Create_calls_resolved [OF assms, of "template_ID t"] show ?thesis
      by (simp add: workspace_creation_def post_request_def create_body_def)
  qed
  have B: "Create env c (WorkspaceMg cr) w =
                (Returns (Inl (ErrorsNew ''template not found'')),
                 \<lparr>remote = s2,
                  calls = calls w @ [HTTPCall (user_lookup c cr),
                                     HTTPCall (templates_lookup c org0)]\<rparr>)"
    if "ts = pre @ t # post" "list_all (\<lambda>x. template_Name x \<noteq> ?wanted) pre"
       "template_Name t = ?wanted" "template_ID t = []" for pre t post
  proof -
    from that have "?tid = []" using find_templateID_first by metis
    with cr show ?thesis by simp
  qed
  have C: "Create env c (WorkspaceMg cr) w =
                (Returns (Inl (ErrorsNew ''template not found'')),
                 \<lparr>remote = s2,
                  calls = calls w @ [HTTPCall (user_lookup c cr),
                                     HTTPCall (templates_lookup c org0)]\<rparr>)"
    if "list_all (\<lambda>x. template_Name x \<noteq> ?wanted) ts"
  proof -
    from that have "?tid = []" by (rule find_templateID_absent)
    with cr show ?thesis by simp
  qed
  from A B C show ?thesis by blast
qed

text \<open>
  On the server with four templates: \<^verbatim>\<open>base-image\<close>, second of the list, is
  resolved and posted; \<^verbatim>\<open>bare-image\<close>, whose first entry has an empty id, and
  \<^verbatim>\<open>arm-image\<close>, which the list does not have, are not found.
\<close>

theorem Create_resolves_template_witness:
  \<open>calls (snd (Create shelf_env ex_client (WorkspaceMg ws_dev) \<lparr>remote = [], calls = []\<rparr>)) =
      [HTTPCall (user_lookup ex_client ws_dev), HTTPCall (templates_lookup ex_client ''org2''),
       HTTPCall \<lparr>req_Method = POST, req_HostURL = ''https://coder.example.com'',
                 req_Header = [(''Content-Type'', ''application/json''),
                               (''Accept'', ''application/json''),
                               (''Coder-Session-Token'', ''s3cr3t'')],
                 req_Body = Some ''{"template_id":"tpl-base","name":"dev"}'',
                 req_Path = ''/api/v2/organizations/org2/members/u1/workspaces''\<rparr>]
   \<and> Create shelf_env ex_client (WorkspaceMg ws_bare) \<lparr>remote = [], calls = []\<rparr> =
      (Returns (Inl (ErrorsNew ''template not found'')),
       \<lparr>remote = [],
        calls = [HTTPCall (user_lookup ex_client ws_bare),
                 HTTPCall (templates_lookup ex_client ''org2'')]\<rparr>)
   \<and> list_all (\<lambda>x. template_Name x \<noteq> Template (ForProvider ws_other_template)) shelf_templates
   \<and> Create shelf_env ex_client (WorkspaceMg ws_other_template) \<lparr>remote = [], calls = []\<rparr> =
      (Returns (Inl (ErrorsNew ''template not found'')),
       \<lparr>remote = [],
        calls = [HTTPCall (user_lookup ex_client ws_other_template),
                 HTTPCall (templates_lookup ex_client ''org2'')]\<rparr>)\<close>
proof -
  let ?user = "\<lparr>user_ID = ''u1'', user_Name = ''janedoe'',
                user_Organization_ids = [''org2'', ''org1'']\<rparr>"
  let ?gpu = "\<lparr>template_ID = ''tpl-gpu'', template_Name = ''gpu-image''\<rparr>"
  let ?base = "\<lparr>template_ID = ''tpl-base'', template_Name = ''base-image''\<rparr>"
  let ?bare0 = "\<lparr>template_ID = [], template_Name = ''bare-image''\<rparr>"
  let ?bare1 = "\<lparr>template_ID = ''tpl-bare'', template_Name = ''bare-image''\<rparr>"
  have u: "roundtrip shelf_env (remote \<lparr>remote = [], calls = []\<rparr>) (user_lookup ex_client x)
             = (Some (Response 200 demo_user_body), [])"
    if "UserName (ForProvider x) = ''jane.doe''" for x
    using that by (simp add: shelf_env_def user_lookup_def get_request_def ReplaceAll_dot)
  have d: "Unmarshal_user shelf_env (Body (Response 200 demo_user_body)) = Inr ?user"
    by (simp add: shelf_env_def demo_Unmarshal_user_def)
  have o: "user_Organization_ids ?user = ''org2'' # [''org1'']" by simp
  have l: "roundtrip shelf_env [] (templates_lookup ex_client ''org2'')
             = (Some (Response 200 shelf_templates_body), [])"
    by (simp add: shelf_env_def templates_lookup_def get_request_def)
  have m: "Unmarshal_templates shelf_env (Body (Response 200 shelf_templates_body)) =
             Inr shelf_templates"
    by (simp add: shelf_env_def)
  have n1: "UserName (ForProvider ws_dev) = ''jane.doe''" by (simp add: ws_dev_def)
  have n2: "UserName (ForProvider ws_bare) = ''jane.doe''" by (simp add: ws_bare_def ws_dev_def)
  have n3: "UserName (ForProvider ws_other_template) = ''jane.doe''"
    by (simp add: ws_other_template_def ws_dev_def)
  have s1: "shelf_templates = [?gpu] @ ?base # [?bare0, ?bare1]
      \<and> list_all (\<lambda>x. template_Name x \<noteq> Template (ForProvider ws_dev)) [?gpu]
      \<and> template_Name ?base = Template (ForProvider ws_dev) \<and> template_ID ?base \<noteq> []"
    by (simp add: shelf_templates_def ws_dev_def)
  have s2: "shelf_templates = [?gpu, ?base] @ ?bare0 # [?bare1]
      \<and> list_all (\<lambda>x. template_Name x \<noteq> Template (ForProvider ws_bare)) [?gpu, ?base]
      \<and> template_Name ?bare0 = Template (ForProvider ws_bare) \<and> template_ID ?bare0 = []"
    by (simp add: shelf_templates_def ws_bare_def ws_dev_def)
  have s3: "list_all (\<lambda>x. template_Name x \<noteq> Template (ForProvider ws_other_template))
              shelf_templates"
    by (simp add: shelf_templates_def ws_other_template_def ws_dev_def)
  from Create_resolves_template [OF u [OF n1] d o l m] s1
  have c1: \<open>calls (snd (Create shelf_env ex_client (WorkspaceMg ws_dev)
                \<lparr>remote = [], calls = []\<rparr>)) =
      [] @ [HTTPCall (user_lookup ex_client ws_dev), HTTPCall (templates_lookup ex_client ''org2''),
       HTTPCall \<lparr>req_Method = POST, req_HostURL = coderurl (service ex_client),
                 req_Header = [(''Content-Type'', ''application/json''),
                               (''Accept'', ''application/json''),
                               (''Coder-Session-Token'', token (service ex_client))],
                 req_Body = Some (''{"template_id":"'' @ template_ID ?base
                                    @ ''","name":"'' @ Name ws_dev @ ''"}''),
                 req_Path = ''/api/v2/organizations/'' @ ''org2'' @ ''/members/''
                              @ user_ID ?user @ ''/workspaces''\<rparr>]\<close>
    by (simp only: World.simps)
  from Create_resolves_template [OF u [OF n2] d o l m] s2
  have c2: "Create shelf_env ex_client (WorkspaceMg ws_bare) \<lparr>remote = [], calls = []\<rparr> =
      (Returns (Inl (ErrorsNew ''template not found'')),
       \<lparr>remote = [],
        calls = calls \<lparr>remote = [], calls = []\<rparr> @ [HTTPCall (user_lookup ex_client ws_bare),
                 HTTPCall (templates_lookup ex_client ''org2'')]\<rparr>)"
    by (elim conjE allE [of _ "[?gpu, ?base]"] allE [of _ "?bare0"] allE [of _ "[?bare1]"])
       (simp only: World.simps simp_thms)
  have c3: "Create shelf_env ex_client (WorkspaceMg ws_other_template)
               \<lparr>remote = [], calls = []\<rparr> =
      (Returns (Inl (ErrorsNew ''template not found'')),
       \<lparr>remote = [],
        calls = calls \<lparr>remote = [], calls = []\<rparr>
                  @ [HTTPCall (user_lookup ex_client ws_other_template),
                     HTTPCall (templates_lookup ex_client ''org2'')]\<rparr>)"
    using Create_resolves_template [OF u [OF n3] d o l m] s3
    by (elim conjE) (simp only: World.simps simp_thms)
  from c1 c2 s3 c3 show ?thesis by (simp add: ex_client_def ws_dev_def)
qed

text \<open>
  C9. \<^verbatim>\<open>Create\<close> reads the first element of the organization ids of the user it
  looked up without checking that there is one: whenever the user response
  decodes into a user without organizations, the index is out of range and
  \<^verbatim>\<open>Create\<close> panics, after the user lookup and before any other call. No error
  is returned for this case.
\<close>

theorem Create_no_organization_panics:
  assumes "roundtrip env (remote w) (user_lookup c cr) = (Some r1, s1)"
    and "Unmarshal_user env (Body r1) = Inr user"
    and "user_Organization_ids user = []"
  shows "Create env c (WorkspaceMg cr) w =
     (Panics ''runtime error: index out of range [0] with length 0'',
      \<lparr>remote = s1, calls = calls w @ [HTTPCall (user_lookup c cr)]\<rparr>)"
  using assms by (simp add: Create_def execute_def index_out_of_range_def)

text \<open>Against the server that knows no user.\<close>

theorem Create_no_organization_panics_witness:
  "roundtrip no_user_env [] (user_lookup ex_client ws_dev) =
     (Some (Response 404 no_user_body), [])
   \<and> Unmarshal_user no_user_env (Body (Response 404 no_user_body)) =
        Inr \<lparr>user_ID = [], user_Name = [], user_Organization_ids = []\<rparr>
   \<and> Create no_user_env ex_client (WorkspaceMg ws_dev) \<lparr>remote = [], calls = []\<rparr> =
     (Panics ''runtime error: index out of range [0] with length 0'',
      \<lparr>remote = [], calls = [HTTPCall (user_lookup ex_client ws_dev)]\<rparr>)"
proof -
  have h1: "roundtrip no_user_env (remote \<lparr>remote = [], calls = []\<rparr>)
              (user_lookup ex_client ws_dev) = (Some (Response 404 no_user_body), [])"
    by (simp add: no_user_env_def)
  have h2: "Unmarshal_user no_user_env (Body (Response 404 no_user_body)) =
        Inr \<lparr>user_ID = [], user_Name = [], user_Organization_ids = []\<rparr>"
    by (simp add: no_user_env_def)
  have h3: "user_Organization_ids \<lparr>user_ID = [], user_Name = [], user_Organization_ids = []\<rparr> = []"
    by simp
  show ?thesis using h1 h2 Create_no_organization_panics [OF h1 h2 h3] by simp
qed

text \<open>
  C10. The body of the creation request is the concatenation
  \<^verbatim>\<open>{"template_id":"\<close> template id \<^verbatim>\<open>","name":"\<close> object name \<^verbatim>\<open>"}\<close>, with nothing
  escaped. So whenever the template id or the object name holds a double quote,
  the body is not a JSON encoding of the object with these two members: a JSON
  reader does not read the two members back from it.
\<close>

theorem Create_body_not_escaped:
  assumes "roundtrip env (remote w) (user_lookup c cr) = (Some r1, s1)"
    and "Unmarshal_user env (Body r1) = Inr user"
    and "user_Organization_ids user = org0 # orgs"
    and "roundtrip env s1 (templates_lookup c org0) = (Some r2, s2)"
    and "Unmarshal_templates env (Body r2) = Inr ts"
    and "find_templateID ts (Template (ForProvider cr)) = tid"
    and "tid \<noteq> []"
  shows \<open>(\<exists>rq. last (calls (snd (Create env c (WorkspaceMg cr) w))) = HTTPCall rq
            \<and> req_Method rq = POST
            \<and> req_Body rq = Some (''{"template_id":"'' @ tid @ ''","name":"'' @ Name cr @ ''"}''))
     \<and> (dquote \<in> set tid \<or> dquote \<in> set (Name cr) \<longrightarrow>
          read_object (''{"template_id":"'' @ tid @ ''","name":"'' @ Name cr @ ''"}'')
            \<noteq> Some [(''template_id'', tid), (''name'', Name cr)])\<close>
proof -
  have "calls (snd (Create env c (WorkspaceMg cr) w)) =
        calls w @ [HTTPCall (user_lookup c cr), HTTPCall (templates_lookup c org0),
                   HTTPCall (workspace_creation c org0 user tid cr)]"
    using Create_calls_resolved [OF assms] .
  then have "last (calls (snd (Create env c (WorkspaceMg cr) w))) =
      HTTPCall (workspace_creation c org0 user tid cr)" by simp
  then have A: \<open>\<exists>rq. last (calls (snd (Create env c (WorkspaceMg cr) w))) = HTTPCall rq
            \<and> req_Method rq = POST
            \<and> req_Body rq = Some (''{"template_id":"'' @ tid @ ''","name":"'' @ Name cr @ ''"}'')\<close>
    by (simp add: workspace_creation_def post_request_def create_body_def)
  have B: \<open>dquote \<in> set tid \<or> dquote \<in> set (Name cr) \<longrightarrow>
          read_object (''{"template_id":"'' @ tid @ ''","name":"'' @ Name cr @ ''"}'')
            \<noteq> Some [(''template_id'', tid), (''name'', Name cr)]\<close>
    using create_body_read_back [of tid "Name cr"] by (auto simp: dq_zero create_body_def)
  from A B show ?thesis by blast
qed

text \<open>
  For the object named \<^verbatim>\<open>a"b\<close> on the example server: the body sent, which a
  JSON reader refuses.
\<close>

theorem Create_body_not_escaped_witness:
  \<open>last (calls (snd (Create demo_env ex_client (WorkspaceMg ws_quote) \<lparr>remote = [], calls = []\<rparr>)))
     = HTTPCall (post_request ex_client ''{"template_id":"tpl-org2","name":"a"b"}''
         ''/api/v2/organizations/org2/members/u1/workspaces'')
   \<and> dquote \<in> set (Name ws_quote)
   \<and> read_object ''{"template_id":"tpl-org2","name":"a"b"}''
        \<noteq> Some [(''template_id'', ''tpl-org2''), (''name'', Name ws_quote)]
   \<and> read_object ''{"template_id":"tpl-org2","name":"a"b"}'' = None\<close>
proof -
  let ?user = "\<lparr>user_ID = ''u1'', user_Name = ''janedoe'',
                user_Organization_ids = [''org2'', ''org1'']\<rparr>"
  let ?ts = "[\<lparr>template_ID = ''tpl-org2'', template_Name = ''base-image''\<rparr>]"
  have n0: "UserName (ForProvider ws_quote) = ''jane.doe''"
    by (simp add: ws_quote_def ws_dev_def)
  have h1: "roundtrip demo_env (remote \<lparr>remote = [], calls = []\<rparr>)
              (user_lookup ex_client ws_quote) = (Some (Response 200 demo_user_body), [])"
    using demo_user_lookup [OF n0] by simp
  have h3: "user_Organization_ids ?user = ''org2'' # [''org1'']" by simp
  have h6: "find_templateID ?ts (Template (ForProvider ws_quote)) = ''tpl-org2''"
    by (simp add: ws_dev_def ws_quote_def)
  have h7: "''tpl-org2'' \<noteq> []" by simp
  have n: \<open>Name ws_quote = ''a"b''\<close> by (simp add: ws_quote_def)
  have q: "dquote \<in> set (Name ws_quote)" by (simp add: n dquote_def)
  have e: \<open>read_object ''{"template_id":"tpl-org2","name":"a"b"}'' = None\<close>
    by (simp add: read_object_def dquote_def backslash_def json_space_def json_control_def)
  have l: \<open>last (calls (snd (Create demo_env ex_client (WorkspaceMg ws_quote)
                \<lparr>remote = [], calls = []\<rparr>)))
     = HTTPCall (post_request ex_client ''{"template_id":"tpl-org2","name":"a"b"}''
         ''/api/v2/organizations/org2/members/u1/workspaces'')\<close>
    by (simp add: n demo_defs request_defs ReplaceAll_dot Create_def execute_def ws_quote_def)
  show ?thesis
    using Create_body_not_escaped [OF h1 demo_user_decoded h3 demo_templates_lookup
        demo_templates_decoded h6 h7] q e l
    by (simp add: n)
qed

subsection \<open>Connect\<close>

text \<open>
  C6, as stated, does not hold: the ProviderConfig is there, its secret can be
  read and the client can be built, yet \<^verbatim>\<open>Connect\<close> fails, because tracking the
  usage of the ProviderConfig failed; the error is neither of the two kinds.
\<close>

theorem Connect_tracking_counterexample:
  "Connect demo_cluster untracked_connector (WorkspaceMg ws_dev) =
     Returns (Inl (ErrorsWrap (ErrorsNew ''cannot apply ProviderConfigUsage'') errTrackPCUsage))
   \<and> \<not> is_CredentialResolutionError
         (ErrorsWrap (ErrorsNew ''cannot apply ProviderConfigUsage'') errTrackPCUsage)
   \<and> \<not> is_ClientConstructionError
         (ErrorsWrap (ErrorsNew ''cannot apply ProviderConfigUsage'') errTrackPCUsage)
   \<and> ProviderConfigReference ws_dev = Some ''default''
   \<and> kube_Get demo_cluster (kube untracked_connector) ''default'' = Inr demo_pc
   \<and> CommonCredentialExtractor demo_cluster (Source (Credentials demo_pc)) (kube untracked_connector)
        (CommonCredentialSelectors (Credentials demo_pc)) = Inr ''s3cr3t''
   \<and> newServiceFn untracked_connector ''s3cr3t'' (CoderUrl demo_pc) =
        Inr \<lparr>token = ''s3cr3t'', coderurl = ''https://coder.example.com''\<rparr>"
  using err_consts_distinct
  by (simp add: Connect_def untracked_connector_def demo_cluster_def demo_pc_def
      newCoderService_def ws_dev_def)

text \<open>
  C6, amended. For a Workspace that carries a ProviderConfig reference and whose
  usage of it was tracked, \<^verbatim>\<open>Connect\<close> fails with a credential resolution error
  exactly when the ProviderConfig cannot be fetched or its secret cannot be
  read, and with a client construction error exactly when the factory fails on
  the resolved credentials; when both steps succeed it returns the client the
  factory built, which for \<^verbatim>\<open>newCoderService\<close> is bound to the resolved endpoint
  and token. (A failure to track the usage is returned before any credential is
  resolved, as an error of its own.)
\<close>

theorem Connect_errors:
  assumes "usage c (WorkspaceMg cr) = None"
    and "ProviderConfigReference cr = Some ref"
  shows "((\<exists>e. Connect cl c (WorkspaceMg cr) = Returns (Inl e) \<and> is_CredentialResolutionError e)
          \<longleftrightarrow> (case kube_Get cl (kube c) ref of
                 Inl err \<Rightarrow> True
               | Inr pc \<Rightarrow> isl (CommonCredentialExtractor cl (Source (Credentials pc)) (kube c)
                                 (CommonCredentialSelectors (Credentials pc)))))
     \<and> ((\<exists>e. Connect cl c (WorkspaceMg cr) = Returns (Inl e) \<and> is_ClientConstructionError e)
          \<longleftrightarrow> (\<exists>pc data. kube_Get cl (kube c) ref = Inr pc
                 \<and> CommonCredentialExtractor cl (Source (Credentials pc)) (kube c)
                      (CommonCredentialSelectors (Credentials pc)) = Inr data
                 \<and> isl (newServiceFn c data (CoderUrl pc))))
     \<and> (\<forall>pc data svc. kube_Get cl (kube c) ref = Inr pc
            \<and> CommonCredentialExtractor cl (Source (Credentials pc)) (kube c)
                 (CommonCredentialSelectors (Credentials pc)) = Inr data
            \<and> newServiceFn c data (CoderUrl pc) = Inr svc
          \<longrightarrow> Connect cl c (WorkspaceMg cr) = Returns (Inr \<lparr>service = svc\<rparr>))
     \<and> (\<forall>pc data. newServiceFn c = newCoderService
            \<and> kube_Get cl (kube c) ref = Inr pc
            \<and> CommonCredentialExtractor cl (Source (Credentials pc)) (kube c)
                 (CommonCredentialSelectors (Credentials pc)) = Inr data
          \<longrightarrow> Connect cl c (WorkspaceMg cr) =
                Returns (Inr \<lparr>service = \<lparr>token = data, coderurl = CoderUrl pc\<rparr>\<rparr>))"
  using assms err_consts_distinct
  by (auto simp: Connect_def Let_def newCoderService_def split: sum.splits)

text \<open>
  In the example cluster: the reference \<^verbatim>\<open>default\<close> gives a client bound to the
  endpoint and the token of the ProviderConfig, and a reference to a
  ProviderConfig that is not there gives a credential resolution error.
\<close>

theorem Connect_errors_witness:
  "usage demo_connector (WorkspaceMg ws_dev) = None
   \<and> ProviderConfigReference ws_dev = Some ''default''
   \<and> newServiceFn demo_connector = newCoderService
   \<and> kube_Get demo_cluster (kube demo_connector) ''default'' = Inr demo_pc
   \<and> CommonCredentialExtractor demo_cluster (Source (Credentials demo_pc)) (kube demo_connector)
        (CommonCredentialSelectors (Credentials demo_pc)) = Inr ''s3cr3t''
   \<and> Connect demo_cluster demo_connector (WorkspaceMg ws_dev) =
       Returns (Inr \<lparr>service = \<lparr>token = ''s3cr3t'', coderurl = CoderUrl demo_pc\<rparr>\<rparr>)"
proof -
  have h1: "usage demo_connector (WorkspaceMg ws_dev) = None"
    by (simp add: demo_connector_def)
  have h2: "ProviderConfigReference ws_dev = Some ''default''"
    by (simp add: ws_dev_def)
  have h3: "newServiceFn demo_connector = newCoderService"
    by (simp add: demo_connector_def)
  have h4: "kube_Get demo_cluster (kube demo_connector) ''default'' = Inr demo_pc"
    by (simp add: demo_cluster_def)
  have h5: "CommonCredentialExtractor demo_cluster (Source (Credentials demo_pc))
        (kube demo_connector) (CommonCredentialSelectors (Credentials demo_pc)) = Inr ''s3cr3t''"
    by (simp add: demo_cluster_def demo_pc_def)
  from Connect_errors [OF h1 h2, of demo_cluster] h3 h4 h5
  have "Connect demo_cluster demo_connector (WorkspaceMg ws_dev) =
       Returns (Inr \<lparr>service = \<lparr>token = ''s3cr3t'', coderurl = CoderUrl demo_pc\<rparr>\<rparr>)"
    by blast
  with h1 h2 h3 h4 h5 show ?thesis by simp
qed

end
